theory Spec2Isabelle
  imports Main
begin

section \<open>JavaScript values and the host runtime\<close>

text \<open>
  The values that reach the scheduler from outside: the body of an HTTP response
  (\<open>response.data\<close>, a parsed JSON text or a string) and the error object axios rejects
  with. Numbers are the integers (a status code, a count of minutes); an object lists
  each of its own keys once.
\<close>

datatype jsval =
    JUndefined
  | JNull
  | JBool bool
  | JNum int
  | JStr string
  | JArr "jsval list"
  | JObj "(string \<times> jsval) list"

text \<open>The error of a rejected axios call, by the field the script's catch block tests:
  \<open>error.response\<close> (status, data, statusText), else \<open>error.request\<close>, else neither. The
  last field of each is \<open>error.message\<close>.\<close>

datatype http_error =
    ErrResponse int jsval string string
  | ErrRequest string
  | ErrOther string

datatype exn = AxiosError http_error | TypeError | RangeError

text \<open>What the awaited request settles with: the HTTP status and the body of the
  response, or the rejection.\<close>

datatype outcome = Fulfilled int jsval | Rejected http_error

fun truthy :: "jsval \<Rightarrow> bool" where
  "truthy JUndefined = False"
| "truthy JNull = False"
| "truthy (JBool b) = b"
| "truthy (JNum n) = (n \<noteq> 0)"
| "truthy (JStr s) = (s \<noteq> [])"
| "truthy (JArr xs) = True"
| "truthy (JObj fs) = True"

text \<open>\<open>v.k\<close>: reading a property of \<open>undefined\<close> or \<open>null\<close> throws a TypeError; a
  primitive or an array has none of the properties read here; an object is looked up.\<close>

fun get_prop :: "jsval \<Rightarrow> string \<Rightarrow> exn + jsval" where
  "get_prop JUndefined k = Inl TypeError"
| "get_prop JNull k = Inl TypeError"
| "get_prop (JObj fs) k = Inr (case map_of fs k of None \<Rightarrow> JUndefined | Some v \<Rightarrow> v)"
| "get_prop v k = Inr JUndefined"

text \<open>\<open>v?.k\<close>: optional chaining gives \<open>undefined\<close> instead of throwing.\<close>

definition optional_prop :: "jsval \<Rightarrow> string \<Rightarrow> jsval" where
  "optional_prop v k = (case get_prop v k of Inl e \<Rightarrow> JUndefined | Inr x \<Rightarrow> x)"

text \<open>Whether a value can be converted to a string, as a template literal does. A
  primitive can. An object of a JSON text is converted by the \<open>toString\<close> it inherits,
  unless it has a key \<open>toString\<close> of its own: that value is no function, and the
  conversion throws. An array joins the conversions of its elements.\<close>

fun stringifies :: "jsval \<Rightarrow> bool" where
  "stringifies (JObj fs) = (''toString'' \<notin> fst ` set fs)"
| "stringifies (JArr xs) = list_all stringifies xs"
| "stringifies v = True"

text \<open>\<open>`${v}`\<close>: the value that is rendered into the line, or the TypeError.\<close>

definition interpolate :: "jsval \<Rightarrow> exn + jsval" where
  "interpolate v = (if stringifies v then Inr v else Inl TypeError)"

text \<open>\<open>error.message\<close> of what a catch block caught (for the two errors of the engine, its
  name stands for the engine's text).\<close>

fun message :: "exn \<Rightarrow> string" where
  "message (AxiosError (ErrResponse st d txt msg)) = msg"
| "message (AxiosError (ErrRequest msg)) = msg"
| "message (AxiosError (ErrOther msg)) = msg"
| "message TypeError = ''TypeError''"
| "message RangeError = ''RangeError''"

text \<open>One constructor for each console call of the sources (the ISO timestamp that some
  of them prefix is left out), with the values interpolated into it.\<close>

datatype line =
    AlreadyInProgress
  | StartingFor string
  | CompletedOk
  | StatusIs jsval
  | TimeTaken jsval
  | CompletedWarn
  | ResponseIs jsval
  | Failed
  | ErrStatus int
  | ErrDetail jsval
  | NetworkError
  | ErrMessage string
  | AlreadyRunning
  | Starting
  | CodebaseIs string
  | IntervalIs int
  | ApiUrl
  | NextRun
  | PressCtrlC
  | Stopped
  | ShuttingDown
  | HelpText
  | PathRequired
  | Usage
  | RunHelp
  | IntervalTooSmall
  | HookStartingTick
  | HookCompleted jsval jsval jsval
  | HookFailed exn
  | HookStartEvery
  | HookStopping
  | ServiceError http_error
  | MakingRequest
  | ResponseReceived int
  | ApiError jsval

datatype stream = StdOut | StdErr

text \<open>Everything the program does to the outside, in the order it does it: a console
  call, a request, a timer call, Node's warning that a timer period does not fit 32 bits,
  Node's report of an exception nobody caught, and the end of the process.\<close>

datatype effect =
    Console stream line
  | Post string
  | SetInterval nat int
  | ClearInterval nat
  | Exit int
  | TimeoutOverflowWarning int
  | Uncaught exn

text \<open>The host (Node or the browser): the effects so far, the armed interval timers with
  the period in milliseconds they fire at, the next timer handle, the number of requests
  that have been sent and not yet settled, and the clock (\<open>Date.now()\<close>).\<close>

record runtime =
  trace :: "effect list"
  timers :: "(nat \<times> int) list"
  nextId :: nat
  pending :: nat
  now :: int

definition rt0 :: runtime where
  "rt0 = \<lparr>trace = [], timers = [], nextId = 1, pending = 0, now = 0\<rparr>"

definition emit :: "effect \<Rightarrow> runtime \<Rightarrow> runtime" where
  "emit e r = r\<lparr>trace := trace r @ [e]\<rparr>"

definition post :: "string \<Rightarrow> runtime \<Rightarrow> runtime" where
  "post p r = (emit (Post p) r)\<lparr>pending := Suc (pending r)\<rparr>"

text \<open>\<open>setInterval\<close>: Node arms a period from 1 to \<open>TIMEOUT_MAX\<close> milliseconds as it is,
  and any other as 1 millisecond, with a warning when it was too large. (The hook's
  constant period lies in the range, where the browser does the same.)\<close>

definition TIMEOUT_MAX :: int where
  "TIMEOUT_MAX = 2147483647"

definition armed_period :: "int \<Rightarrow> int" where
  "armed_period ms = (if 1 \<le> ms \<and> ms \<le> TIMEOUT_MAX then ms else 1)"

definition setInterval :: "int \<Rightarrow> runtime \<Rightarrow> nat \<times> runtime" where
  "setInterval ms r =
     (let r1 = emit (SetInterval (nextId r) ms) r;
          r2 = (if ms > TIMEOUT_MAX then emit (TimeoutOverflowWarning ms) r1 else r1)
      in (nextId r,
          r2\<lparr>timers := timers r @ [(nextId r, armed_period ms)], nextId := Suc (nextId r)\<rparr>))"

definition clearInterval :: "nat \<Rightarrow> runtime \<Rightarrow> runtime" where
  "clearInterval t r =
     (emit (ClearInterval t) r)\<lparr>timers := filter (\<lambda>x. fst x \<noteq> t) (timers r)\<rparr>"

text \<open>\<open>new Date(t).toISOString()\<close> throws a RangeError unless \<open>t\<close> is a time value, at most
  8.64e15 milliseconds from the epoch either way.\<close>

definition date_in_range :: "int \<Rightarrow> bool" where
  "date_in_range t = (- 8640000000000000 \<le> t \<and> t \<le> 8640000000000000)"

text \<open>The requests sent so far, by their \<open>codebase_path\<close>.\<close>

fun posts :: "effect list \<Rightarrow> string list" where
  "posts [] = []"
| "posts (Post p # es) = p # posts es"
| "posts (e # es) = posts es"

text \<open>\<open>try { body } catch (e) { handler } finally { fin }\<close>: a block returns the exception
  it throws, if any, with the state it left; \<open>fin\<close> runs on every path, and an exception
  of the handler leaves the statement.\<close>

definition try_catch_finally ::
  "('s \<Rightarrow> exn option \<times> 's) \<Rightarrow> (exn \<Rightarrow> 's \<Rightarrow> exn option \<times> 's) \<Rightarrow> ('s \<Rightarrow> 's) \<Rightarrow> 's
     \<Rightarrow> exn option \<times> 's" where
  "try_catch_finally body handler fin s =
     (case body s of
        (None, s1) \<Rightarrow> (None, fin s1)
      | (Some e, s1) \<Rightarrow> (case handler e s1 of (r, s2) \<Rightarrow> (r, fin s2)))"

section \<open>The standalone script: class PeriodicContextGatherer\<close>

definition DEFAULT_INTERVAL_MINUTES :: int where
  "DEFAULT_INTERVAL_MINUTES = 3"

record gatherer =
  codebasePath :: string
  intervalMinutes :: int
  intervalMs :: int
  intervalId :: "nat option"
  isRunning :: bool

text \<open>The process: the one gatherer, the host, and the exit status once the process
  has ended.\<close>

record node =
  self :: gatherer
  rt :: runtime
  exited :: "int option"

definition new_gatherer :: "string \<Rightarrow> int option \<Rightarrow> gatherer" where
  "new_gatherer p m =
     (let mins = (case m of None \<Rightarrow> DEFAULT_INTERVAL_MINUTES | Some n \<Rightarrow> n)
      in \<lparr>codebasePath = p, intervalMinutes = mins, intervalMs = mins * 60 * 1000,
          intervalId = None, isRunning = False\<rparr>)"

definition boot :: "string \<Rightarrow> int option \<Rightarrow> node" where
  "boot p m = \<lparr>self = new_gatherer p m, rt = rt0, exited = None\<rparr>"

definition console_log :: "line \<Rightarrow> node \<Rightarrow> node" where
  "console_log l s = s\<lparr>rt := emit (Console StdOut l) (rt s)\<rparr>"

definition console_error :: "line \<Rightarrow> node \<Rightarrow> node" where
  "console_error l s = s\<lparr>rt := emit (Console StdErr l) (rt s)\<rparr>"

text \<open>\<open>gatherContext\<close> up to its \<open>await\<close>: the guard, the flag, the first log line and the
  request.\<close>

definition gatherContext_begin :: "node \<Rightarrow> node" where
  "gatherContext_begin s =
     (if isRunning (self s) then console_log AlreadyInProgress s
      else
        let s1 = s\<lparr>self := (self s)\<lparr>isRunning := True\<rparr>\<rparr>;
            s2 = console_log (StartingFor (codebasePath (self s1))) s1
        in s2\<lparr>rt := post (codebasePath (self s2)) (rt s2)\<rparr>)"

text \<open>\<open>`${v.k}`\<close>, for the two template literals of the success report.\<close>

definition template :: "jsval \<Rightarrow> string \<Rightarrow> exn + jsval" where
  "template v k = (case get_prop v k of Inl e \<Rightarrow> Inl e | Inr x \<Rightarrow> interpolate x)"

text \<open>The rest of the \<open>try\<close> block, once the request has settled.\<close>

definition gather_body :: "outcome \<Rightarrow> node \<Rightarrow> exn option \<times> node" where
  "gather_body r s =
     (case r of
        Rejected e \<Rightarrow> (Some (AxiosError e), s)
      | Fulfilled st d \<Rightarrow>
          if \<not> truthy d then
            (None, console_log (ResponseIs d) (console_log CompletedWarn s))
          else
            (case get_prop d ''statuscode'' of
               Inl x \<Rightarrow> (Some x, s)
             | Inr sc \<Rightarrow>
                 if sc = JNum 200 then
                   (let s1 = console_log CompletedOk s in
                    case template d ''detail'' of
                      Inl x \<Rightarrow> (Some x, s1)
                    | Inr det \<Rightarrow>
                        (let s2 = console_log (StatusIs det) s1 in
                         case template d ''time_taken_seconds'' of
                           Inl x \<Rightarrow> (Some x, s2)
                         | Inr tt \<Rightarrow> (None, console_log (TimeTaken tt) s2)))
                 else
                   (None, console_log (ResponseIs d) (console_log CompletedWarn s))))"

text \<open>\<open>error.response.data?.error || error.response.statusText\<close>\<close>

definition error_detail :: "jsval \<Rightarrow> string \<Rightarrow> jsval" where
  "error_detail d txt =
     (let v = optional_prop d ''error'' in if truthy v then v else JStr txt)"

text \<open>The \<open>catch\<close> block. Its second line for an error response is a template literal
  too, and nothing catches what that throws.\<close>

definition gather_catch :: "exn \<Rightarrow> node \<Rightarrow> exn option \<times> node" where
  "gather_catch e s =
     (let s1 = console_error Failed s in
      case e of
        AxiosError (ErrResponse st d txt msg) \<Rightarrow>
          (let s2 = console_error (ErrStatus st) s1 in
           case interpolate (error_detail d txt) of
             Inl x \<Rightarrow> (Some x, s2)
           | Inr v \<Rightarrow> (None, console_error (ErrDetail v) s2))
      | AxiosError (ErrRequest msg) \<Rightarrow> (None, console_error NetworkError s1)
      | _ \<Rightarrow> (None, console_error (ErrMessage (message e)) s1))"

definition gather_finally :: "node \<Rightarrow> node" where
  "gather_finally s = s\<lparr>self := (self s)\<lparr>isRunning := False\<rparr>\<rparr>"

definition gatherContext_resume :: "outcome \<Rightarrow> node \<Rightarrow> exn option \<times> node" where
  "gatherContext_resume r = try_catch_finally (gather_body r) gather_catch gather_finally"

text \<open>\<open>start\<close>. The banner's fifth line renders the date of the next run, which throws
  when that date is out of range: then \<open>start\<close> is left before the tick and the timer.\<close>

definition start :: "node \<Rightarrow> exn option \<times> node" where
  "start s =
     (if intervalId (self s) \<noteq> None then (None, console_log AlreadyRunning s)
      else
        let s0 = console_log ApiUrl
                   (console_log (IntervalIs (intervalMinutes (self s)))
                      (console_log (CodebaseIs (codebasePath (self s)))
                         (console_log Starting s)))
        in
          if \<not> date_in_range (now (rt s0) + intervalMs (self s0)) then (Some RangeError, s0)
          else
            let s1 = console_log PressCtrlC (console_log NextRun s0);
                s2 = gatherContext_begin s1;
                (t, r) = setInterval (intervalMs (self s2)) (rt s2)
            in (None, s2\<lparr>self := (self s2)\<lparr>intervalId := Some t\<rparr>, rt := r\<rparr>))"

definition stop :: "node \<Rightarrow> node" where
  "stop s =
     (case intervalId (self s) of
        None \<Rightarrow> s
      | Some t \<Rightarrow>
          console_log Stopped
            (s\<lparr>self := (self s)\<lparr>intervalId := None\<rparr>, rt := clearInterval t (rt s)\<rparr>))"

definition process_exit :: "int \<Rightarrow> node \<Rightarrow> node" where
  "process_exit c s = s\<lparr>rt := emit (Exit c) (rt s), exited := Some c\<rparr>"

definition handleExit :: "node \<Rightarrow> node" where
  "handleExit s = process_exit 0 (stop (console_log ShuttingDown s))"

text \<open>An exception that leaves a call made from the top level, or the promise of a tick
  that nobody awaits: Node reports it and ends the process with status 1.\<close>

definition crash :: "exn \<Rightarrow> node \<Rightarrow> node" where
  "crash e s = process_exit 1 (s\<lparr>rt := emit (Uncaught e) (rt s)\<rparr>)"

definition toplevel :: "exn option \<times> node \<Rightarrow> node" where
  "toplevel x = (case x of (None, s) \<Rightarrow> s | (Some e, s) \<Rightarrow> crash e s)"

text \<open>What can happen to the running process: a call of \<open>start\<close> or \<open>stop\<close>, a timer
  firing (only an armed one calls back), the pending request settling (only a pending
  one can), SIGINT or SIGTERM, and the clock moving. Nothing runs after the process has
  ended.\<close>

datatype event = CallStart | CallStop | Fire nat | Settle outcome | Signal | Elapse int

definition step :: "event \<Rightarrow> node \<Rightarrow> node" where
  "step e s =
     (if exited s \<noteq> None then s
      else case e of
        CallStart \<Rightarrow> toplevel (start s)
      | CallStop \<Rightarrow> stop s
      | Fire t \<Rightarrow> if t \<in> fst ` set (timers (rt s)) then gatherContext_begin s else s
      | Settle r \<Rightarrow>
          if pending (rt s) = 0 then s
          else toplevel
                 (gatherContext_resume r (s\<lparr>rt := (rt s)\<lparr>pending := pending (rt s) - 1\<rparr>\<rparr>))
      | Signal \<Rightarrow> handleExit s
      | Elapse d \<Rightarrow> s\<lparr>rt := (rt s)\<lparr>now := now (rt s) + d\<rparr>\<rparr>)"

fun run :: "event list \<Rightarrow> node \<Rightarrow> node" where
  "run [] s = s"
| "run (e # es) s = run es (step e s)"

section \<open>The command line of the script\<close>

text \<open>\<open>parseInt\<close> with no radix, on an argument that may be missing: leading white space
  is skipped, then an optional sign, then \<open>0x\<close> or \<open>0X\<close> selects radix 16, then the longest
  run of digits is read; no digit at all gives NaN (\<open>None\<close>). A missing argument is the
  string \<open>undefined\<close>. (Arguments are taken to be ASCII, so the white space is the six
  ASCII characters; the result is the integer the digits denote, which the double
  JavaScript returns equals up to 2^53.)\<close>

definition is_space :: "char \<Rightarrow> bool" where
  "is_space c = (c \<in> set [CHR '' '', CHR 0x09, CHR 0x0A, CHR 0x0B, CHR 0x0C, CHR 0x0D])"

definition digit_of :: "char \<Rightarrow> nat option" where
  "digit_of c =
     (let n = (of_char c :: nat) in
      if 48 \<le> n \<and> n \<le> 57 then Some (n - 48)
      else if 97 \<le> n \<and> n \<le> 122 then Some (n - 87)
      else if 65 \<le> n \<and> n \<le> 90 then Some (n - 55)
      else None)"

definition is_digit :: "nat \<Rightarrow> char \<Rightarrow> bool" where
  "is_digit radix c = (case digit_of c of None \<Rightarrow> False | Some d \<Rightarrow> d < radix)"

fun digits_value :: "nat \<Rightarrow> nat \<Rightarrow> string \<Rightarrow> nat" where
  "digits_value radix acc [] = acc"
| "digits_value radix acc (c # cs) =
     digits_value radix (acc * radix + (case digit_of c of None \<Rightarrow> 0 | Some d \<Rightarrow> d)) cs"

definition parseInt :: "string option \<Rightarrow> int option" where
  "parseInt a =
     (let input = (case a of None \<Rightarrow> ''undefined'' | Some x \<Rightarrow> x);
          s = dropWhile is_space input;
          negative = (take 1 s = ''-'');
          s1 = (if take 1 s = ''-'' \<or> take 1 s = ''+'' then drop 1 s else s);
          hex = (take 2 s1 = ''0x'' \<or> take 2 s1 = ''0X'');
          radix = (if hex then 16 else 10);
          s2 = (if hex then drop 2 s1 else s1);
          z = takeWhile (is_digit radix) s2
      in if z = [] then None
         else Some ((if negative then - 1 else 1) * int (digits_value radix 0 z)))"

text \<open>\<open>args[i]\<close>: \<open>undefined\<close> beyond the end.\<close>

definition arg :: "string list \<Rightarrow> nat \<Rightarrow> string option" where
  "arg args i = (if i < length args then Some (args ! i) else None)"

text \<open>\<open>main\<close> either leaves through \<open>process.exit\<close> before a gatherer exists, or
  constructs one and starts it; an exception of \<open>start\<close> is caught by nobody.\<close>

datatype main_result = Exited int runtime | Launched node

definition main :: "string list \<Rightarrow> runtime \<Rightarrow> main_result" where
  "main args r =
     (if ''--help'' \<in> set args \<or> ''-h'' \<in> set args then
        Exited 0 (emit (Exit 0) (emit (Console StdOut HelpText) r))
      else
        let codebasePath = arg args 0;
            intervalMinutes =
              (case parseInt (arg args 1) of
                 None \<Rightarrow> DEFAULT_INTERVAL_MINUTES
               | Some n \<Rightarrow> if n = 0 then DEFAULT_INTERVAL_MINUTES else n)
        in
          if (case codebasePath of None \<Rightarrow> True | Some p \<Rightarrow> p = []) then
            Exited 1 (emit (Exit 1) (emit (Console StdErr RunHelp)
              (emit (Console StdErr Usage) (emit (Console StdErr PathRequired) r))))
          else if intervalMinutes < 1 then
            Exited 1 (emit (Exit 1) (emit (Console StdErr IntervalTooSmall) r))
          else
            (case start \<lparr>self = new_gatherer (case codebasePath of None \<Rightarrow> [] | Some p \<Rightarrow> p)
                                      (Some intervalMinutes),
                          rt = r, exited = None\<rparr> of
               (None, s) \<Rightarrow> Launched s
             | (Some e, s) \<Rightarrow> Exited 1 (rt (crash e s))))"

section \<open>The React hook: usePeriodicContextGather\<close>

text \<open>The application state of AppContext and its reducer.\<close>

text \<open>(\<open>appCodebasePath\<close> is the state's \<open>codebasePath\<close>; the gatherer's field has that name
  already.)\<close>

record appState =
  theme :: string
  appCodebasePath :: string
  isContextGathered :: bool
  isLoading :: bool
  error :: jsval
  chatHistory :: "jsval list"

definition initialState :: appState where
  "initialState =
     \<lparr>theme = ''light'', appCodebasePath = [], isContextGathered = False, isLoading = False,
      error = JNull, chatHistory = []\<rparr>"

datatype action =
    SET_THEME string
  | SET_CODEBASE_PATH string
  | SET_CONTEXT_GATHERED bool
  | SET_LOADING bool
  | SET_ERROR jsval
  | ADD_CHAT_MESSAGE jsval
  | CLEAR_CHAT_HISTORY
  | RESET_STATE

fun appReducer :: "appState \<Rightarrow> action \<Rightarrow> appState" where
  "appReducer st (SET_THEME x) = st\<lparr>theme := x\<rparr>"
| "appReducer st (SET_CODEBASE_PATH x) = st\<lparr>appCodebasePath := x\<rparr>"
| "appReducer st (SET_CONTEXT_GATHERED x) = st\<lparr>isContextGathered := x\<rparr>"
| "appReducer st (SET_LOADING x) = st\<lparr>isLoading := x\<rparr>"
| "appReducer st (SET_ERROR x) = st\<lparr>error := x\<rparr>"
| "appReducer st (ADD_CHAT_MESSAGE x) = st\<lparr>chatHistory := chatHistory st @ [x]\<rparr>"
| "appReducer st CLEAR_CHAT_HISTORY = st\<lparr>chatHistory := []\<rparr>"
| "appReducer st RESET_STATE = initialState\<lparr>theme := theme st\<rparr>"

text \<open>The hook in its component: the application state it reads and dispatches to, its
  two refs, the browser, whether the component is mounted, and whether a dispatch has
  queued a render that has not run yet.\<close>

record page =
  state :: appState
  intervalRef :: "nat option"
  isRunningRef :: bool
  browser :: runtime
  mounted :: bool
  updateQueued :: bool

definition hook_log :: "stream \<Rightarrow> line \<Rightarrow> page \<Rightarrow> page" where
  "hook_log c l s = s\<lparr>browser := emit (Console c l) (browser s)\<rparr>"

text \<open>\<open>dispatch\<close>: each of the reducer's cases builds a new state object, so every dispatch
  makes the provider render again.\<close>

definition dispatch :: "action \<Rightarrow> page \<Rightarrow> page" where
  "dispatch a s = s\<lparr>state := appReducer (state s) a, updateQueued := True\<rparr>"

text \<open>The callbacks close over \<open>state.codebasePath\<close> of the render that made them: it is
  the parameter \<open>p\<close>. The hook's \<open>gatherContext\<close> up to its \<open>await\<close>, with the line of the
  request interceptor of \<open>config/api.js\<close> before the request leaves:\<close>

definition hook_gatherContext_begin :: "string \<Rightarrow> page \<Rightarrow> page" where
  "hook_gatherContext_begin p s =
     (if p = [] \<or> isRunningRef s then s
      else
        let s1 = s\<lparr>isRunningRef := True\<rparr>;
            s2 = hook_log StdOut HookStartingTick s1;
            s3 = hook_log StdOut MakingRequest s2
        in s3\<lparr>browser := post p (browser s3)\<rparr>)"

text \<open>\<open>error.response?.data || error.message\<close>, which the response interceptor logs.\<close>

definition api_error_value :: "http_error \<Rightarrow> jsval" where
  "api_error_value e =
     (case e of
        ErrResponse st d txt msg \<Rightarrow> if truthy d then d else JStr msg
      | ErrRequest msg \<Rightarrow> JStr msg
      | ErrOther msg \<Rightarrow> JStr msg)"

text \<open>The response interceptor, then \<open>contextService.gatherContext\<close> after its own
  \<open>await\<close> (it returns \<open>response.data\<close>, or logs the error and throws it again), then the
  rest of the hook's \<open>try\<close> block.\<close>

definition hook_body :: "outcome \<Rightarrow> page \<Rightarrow> exn option \<times> page" where
  "hook_body r s =
     (case r of
        Rejected e \<Rightarrow>
          (Some (AxiosError e),
           hook_log StdErr (ServiceError e) (hook_log StdErr (ApiError (api_error_value e)) s))
      | Fulfilled st response \<Rightarrow>
          (let s0 = hook_log StdOut (ResponseReceived st) s in
           case get_prop response ''statuscode'' of
             Inl x \<Rightarrow> (Some x, s0)
           | Inr sc \<Rightarrow>
               (case get_prop response ''time_taken_seconds'' of
                  Inl x \<Rightarrow> (Some x, s0)
                | Inr tt \<Rightarrow>
                    (case get_prop response ''detail'' of
                       Inl x \<Rightarrow> (Some x, s0)
                     | Inr det \<Rightarrow>
                         (let s1 = hook_log StdOut (HookCompleted sc tt det) s0 in
                          if sc = JNum 200 then (None, dispatch (SET_CONTEXT_GATHERED True) s1)
                          else (None, s1))))))"

definition hook_catch :: "exn \<Rightarrow> page \<Rightarrow> exn option \<times> page" where
  "hook_catch e s = (None, hook_log StdErr (HookFailed e) s)"

definition hook_finally :: "page \<Rightarrow> page" where
  "hook_finally s = s\<lparr>isRunningRef := False\<rparr>"

definition hook_gatherContext_resume :: "outcome \<Rightarrow> page \<Rightarrow> exn option \<times> page" where
  "hook_gatherContext_resume r = try_catch_finally (hook_body r) hook_catch hook_finally"

definition CONTEXT_GATHER_INTERVAL :: int where
  "CONTEXT_GATHER_INTERVAL = 3 * 60 * 1000"

definition startPeriodicGathering :: "string \<Rightarrow> page \<Rightarrow> page" where
  "startPeriodicGathering p s =
     (if intervalRef s \<noteq> None \<or> p = [] then s
      else
        let s1 = hook_log StdOut HookStartEvery s;
            (t, r) = setInterval CONTEXT_GATHER_INTERVAL (browser s1)
        in s1\<lparr>intervalRef := Some t, browser := r\<rparr>)"

definition stopPeriodicGathering :: "page \<Rightarrow> page" where
  "stopPeriodicGathering s =
     (case intervalRef s of
        None \<Rightarrow> s
      | Some t \<Rightarrow>
          let s1 = hook_log StdOut HookStopping s
          in s1\<lparr>intervalRef := None, browser := clearInterval t (browser s1)\<rparr>)"

text \<open>The hook's first effect, with the state of the render it belongs to.\<close>

definition periodic_effect :: "page \<Rightarrow> page" where
  "periodic_effect s =
     (if isContextGathered (state s) \<and> appCodebasePath (state s) \<noteq> []
      then startPeriodicGathering (appCodebasePath (state s)) s
      else stopPeriodicGathering s)"

text \<open>A render after a dispatch. The provider builds its \<open>actions\<close> anew in every render,
  so \<open>gatherContext\<close> and \<open>startPeriodicGathering\<close> are new callbacks and the first effect
  runs again: its cleanup stops the timer, then its body starts or stops it by the new
  state. (The second effect's cleanup is a second stop, which finds no timer.) An
  unmounted hook renders no more.\<close>

definition rerender :: "page \<Rightarrow> page" where
  "rerender s = periodic_effect (stopPeriodicGathering (stopPeriodicGathering s))"

definition flush :: "page \<Rightarrow> page" where
  "flush s =
     (if updateQueued s then (if mounted s then rerender s else s)\<lparr>updateQueued := False\<rparr>
      else s)"

text \<open>Mounting runs the effect for the first time.\<close>

definition mount :: "appState \<Rightarrow> page" where
  "mount st =
     periodic_effect
       \<lparr>state = st, intervalRef = None, isRunningRef = False, browser = rt0,
        mounted = True, updateQueued = False\<rparr>"

text \<open>What can happen to the hook: a call of start (from a render whose path was \<open>p\<close>) or
  of stop by the component that uses it; an armed timer firing (its callback closed over
  \<open>p\<close>); the pending request settling; a dispatch to the application state from anywhere,
  or several in one batch, which render once; and the component unmounting, where both
  effects clean up. React renders when the handler that dispatched has returned.\<close>

datatype hook_event =
    HookStart string
  | HookStop
  | HookFire nat string
  | HookSettle outcome
  | Dispatch action
  | Batch "action list"
  | Unmount

definition hook_step :: "hook_event \<Rightarrow> page \<Rightarrow> page" where
  "hook_step e s =
     (case e of
        HookStart p \<Rightarrow> startPeriodicGathering p s
      | HookStop \<Rightarrow> stopPeriodicGathering s
      | HookFire t p \<Rightarrow>
          if t \<in> fst ` set (timers (browser s)) then hook_gatherContext_begin p s else s
      | HookSettle r \<Rightarrow>
          if pending (browser s) = 0 then s
          else flush (snd (hook_gatherContext_resume r
                      (s\<lparr>browser := (browser s)\<lparr>pending := pending (browser s) - 1\<rparr>\<rparr>)))
      | Dispatch a \<Rightarrow> flush (dispatch a s)
      | Batch as \<Rightarrow> flush (foldl (\<lambda>x a. dispatch a x) s as)
      | Unmount \<Rightarrow>
          if mounted s then (stopPeriodicGathering (stopPeriodicGathering s))\<lparr>mounted := False\<rparr>
          else s)"

fun hook_run :: "hook_event list \<Rightarrow> page \<Rightarrow> page" where
  "hook_run [] s = s"
| "hook_run (e # es) s = hook_run es (hook_step e s)"

section \<open>Observations\<close>

text \<open>The requests a process or a page has sent, the number of them still awaiting
  their response, and the effects that a step from \<open>r\<close> to \<open>r'\<close> added.\<close>

definition sent :: "node \<Rightarrow> string list" where
  "sent s = posts (trace (rt s))"

definition in_flight :: "node \<Rightarrow> nat" where
  "in_flight s = pending (rt s)"

definition hook_sent :: "page \<Rightarrow> string list" where
  "hook_sent s = posts (trace (browser s))"

definition hook_in_flight :: "page \<Rightarrow> nat" where
  "hook_in_flight s = pending (browser s)"

definition added :: "runtime \<Rightarrow> runtime \<Rightarrow> effect list" where
  "added r r' = drop (length (trace r)) (trace r')"

fun is_console :: "effect \<Rightarrow> bool" where
  "is_console (Console c l) = True"
| "is_console e = False"

text \<open>What holds of every state the process, or the page, can reach: a request is pending
  exactly while the flag is set, the only armed timer is the one whose handle is
  stored, and no render is left queued between two events.\<close>

definition flag_inv :: "node \<Rightarrow> bool" where
  "flag_inv s \<longleftrightarrow>
     pending (rt s) = (if isRunning (self s) then 1 else 0) \<and>
     timers (rt s) =
       (case intervalId (self s) of
          None \<Rightarrow> []
        | Some t \<Rightarrow> [(t, armed_period (intervalMs (self s)))])"

definition refs_inv :: "page \<Rightarrow> bool" where
  "refs_inv s \<longleftrightarrow>
     pending (browser s) = (if isRunningRef s then 1 else 0) \<and>
     timers (browser s) =
       (case intervalRef s of None \<Rightarrow> [] | Some t \<Rightarrow> [(t, CONTEXT_GATHER_INTERVAL)])"

definition hook_inv :: "page \<Rightarrow> bool" where
  "hook_inv s \<longleftrightarrow> refs_inv s \<and> \<not> updateQueued s"

section \<open>Auxiliary facts\<close>

lemma posts_append: "posts (xs @ ys) = posts xs @ posts ys"
  by (induction xs rule: posts.induct) simp_all

lemma posts_console: "list_all is_console xs \<Longrightarrow> posts xs = []"
  by (induction xs rule: posts.induct) simp_all

lemmas script_defs = emit_def post_def setInterval_def armed_period_def clearInterval_def
  console_log_def console_error_def gatherContext_begin_def start_def stop_def
  process_exit_def handleExit_def crash_def toplevel_def

lemma get_prop_Inl: "(get_prop v k = Inl e) = (e = TypeError \<and> (v = JUndefined \<or> v = JNull))"
  by (cases v) auto

lemma interpolate_Inl: "(interpolate v = Inl e) = (e = TypeError \<and> \<not> stringifies v)"
  by (auto simp: interpolate_def)

lemma interpolate_Inr: "(interpolate v = Inr w) = (w = v \<and> stringifies v)"
  by (auto simp: interpolate_def)

lemma template_Inl:
  "(template v k = Inl e) =
     (e = TypeError \<and> (v = JUndefined \<or> v = JNull \<or> \<not> stringifies (optional_prop v k)))"
  by (cases "get_prop v k")
     (auto simp: template_def optional_prop_def get_prop_Inl interpolate_Inl)

lemma template_Inr:
  "(template v k = Inr w) =
     (w = optional_prop v k \<and> v \<noteq> JUndefined \<and> v \<noteq> JNull \<and> stringifies (optional_prop v k))"
  by (cases "get_prop v k")
     (auto simp: template_def optional_prop_def get_prop_Inl interpolate_def)

lemmas resume_defs = gatherContext_resume_def try_catch_finally_def gather_body_def
  gather_catch_def gather_finally_def console_log_def console_error_def emit_def
  get_prop_Inl template_Inl interpolate_Inl interpolate_Inr

lemmas resume_splits = outcome.splits sum.splits http_error.splits exn.splits prod.splits

lemma resume_throws:
  "fst (gatherContext_resume r s) =
     (case r of
        Rejected (ErrResponse st d txt msg) \<Rightarrow>
          if stringifies (error_detail d txt) then None else Some TypeError
      | _ \<Rightarrow> None)"
  by (simp add: resume_defs Let_def split: resume_splits)

lemma resume_self: "self (snd (gatherContext_resume r s)) = (self s)\<lparr>isRunning := False\<rparr>"
  by (simp add: resume_defs Let_def split: resume_splits)

lemma resume_exited: "exited (snd (gatherContext_resume r s)) = exited s"
  by (simp add: resume_defs Let_def split: resume_splits)

lemma resume_rt:
  "timers (rt (snd (gatherContext_resume r s))) = timers (rt s)"
  "nextId (rt (snd (gatherContext_resume r s))) = nextId (rt s)"
  "pending (rt (snd (gatherContext_resume r s))) = pending (rt s)"
  "now (rt (snd (gatherContext_resume r s))) = now (rt s)"
  by (simp_all add: resume_defs Let_def split: resume_splits)

lemma resume_trace:
  "trace (rt (snd (gatherContext_resume r s)))
     = trace (rt s) @ added (rt s) (rt (snd (gatherContext_resume r s)))"
  "added (rt s) (rt (snd (gatherContext_resume r s))) \<noteq> []"
  "list_all is_console (added (rt s) (rt (snd (gatherContext_resume r s))))"
  by (simp_all add: resume_defs added_def Let_def split: resume_splits)

lemma resume_sent: "posts (trace (rt (snd (gatherContext_resume r s)))) = posts (trace (rt s))"
  using resume_trace(1)[of r s] resume_trace(3)[of s r]
  by (metis posts_append posts_console append_Nil2)

lemma toplevel_facts:
  "self (toplevel x) = self (snd x)"
  "timers (rt (toplevel x)) = timers (rt (snd x))"
  "nextId (rt (toplevel x)) = nextId (rt (snd x))"
  "pending (rt (toplevel x)) = pending (rt (snd x))"
  "now (rt (toplevel x)) = now (rt (snd x))"
  "posts (trace (rt (toplevel x))) = posts (trace (rt (snd x)))"
  "fst x = None \<Longrightarrow> toplevel x = snd x"
  by (cases x; cases "fst x";
      simp add: toplevel_def crash_def process_exit_def emit_def posts_append)+

lemmas hook_defs = hook_gatherContext_resume_def try_catch_finally_def hook_body_def
  hook_catch_def hook_finally_def hook_log_def dispatch_def emit_def get_prop_Inl

lemma hook_resume_no_throw: "fst (hook_gatherContext_resume r s) = None"
  by (simp add: hook_defs Let_def split: outcome.splits sum.splits prod.splits)

lemma hook_resume_refs:
  "isRunningRef (snd (hook_gatherContext_resume r s)) = False"
  "intervalRef (snd (hook_gatherContext_resume r s)) = intervalRef s"
  "mounted (snd (hook_gatherContext_resume r s)) = mounted s"
  by (simp_all add: hook_defs Let_def split: outcome.splits sum.splits prod.splits)

lemma hook_resume_rt:
  "timers (browser (snd (hook_gatherContext_resume r s))) = timers (browser s)"
  "nextId (browser (snd (hook_gatherContext_resume r s))) = nextId (browser s)"
  "pending (browser (snd (hook_gatherContext_resume r s))) = pending (browser s)"
  by (simp_all add: hook_defs Let_def split: outcome.splits sum.splits prod.splits)

lemma hook_resume_trace:
  "trace (browser (snd (hook_gatherContext_resume r s)))
     = trace (browser s) @ added (browser s) (browser (snd (hook_gatherContext_resume r s)))"
  "added (browser s) (browser (snd (hook_gatherContext_resume r s))) \<noteq> []"
  "list_all is_console (added (browser s) (browser (snd (hook_gatherContext_resume r s))))"
  by (simp_all add: hook_defs added_def Let_def split: outcome.splits sum.splits prod.splits)

lemma hook_resume_sent:
  "posts (trace (browser (snd (hook_gatherContext_resume r s)))) = posts (trace (browser s))"
  using hook_resume_trace(1)[of r s] hook_resume_trace(3)[of s r]
  by (metis posts_append posts_console append_Nil2)

text \<open>The invariant of the script.\<close>

lemma flag_inv_boot: "flag_inv (boot p m)"
  by (simp add: flag_inv_def boot_def new_gatherer_def rt0_def Let_def)

lemma flag_inv_begin: "flag_inv s \<Longrightarrow> flag_inv (gatherContext_begin s)"
  by (simp add: flag_inv_def script_defs Let_def split: option.splits)

lemma flag_inv_start: "flag_inv s \<Longrightarrow> flag_inv (toplevel (start s))"
  by (auto simp: flag_inv_def script_defs armed_period_def Let_def split: option.splits)

lemma flag_inv_stop: "flag_inv s \<Longrightarrow> flag_inv (stop s)"
  by (auto simp: flag_inv_def script_defs Let_def split: option.splits)

lemma flag_inv_handleExit: "flag_inv s \<Longrightarrow> flag_inv (handleExit s)"
  by (auto simp: flag_inv_def script_defs Let_def split: option.splits)

lemma flag_inv_settle: "flag_inv s \<Longrightarrow> flag_inv (step (Settle r) s)"
  by (auto simp: step_def flag_inv_def toplevel_facts resume_self resume_rt
      split: if_splits option.splits)

lemma flag_inv_step: "flag_inv s \<Longrightarrow> flag_inv (step e s)"
proof (cases e)
  case (Settle r)
  assume "flag_inv s"
  then show ?thesis unfolding Settle by (rule flag_inv_settle)
next
  case (Elapse d)
  assume "flag_inv s"
  then show ?thesis unfolding Elapse by (simp add: step_def flag_inv_def split: option.splits)
qed (simp_all add: step_def flag_inv_begin flag_inv_start flag_inv_stop flag_inv_handleExit)

lemma flag_inv_run: "flag_inv s \<Longrightarrow> flag_inv (run es s)"
  by (induction es arbitrary: s) (simp_all add: flag_inv_step)

text \<open>The invariant of the hook.\<close>

lemmas hook_op_defs = hook_gatherContext_begin_def startPeriodicGathering_def
  stopPeriodicGathering_def hook_log_def dispatch_def emit_def post_def setInterval_def
  armed_period_def clearInterval_def

lemma refs_inv_stop: "refs_inv s \<Longrightarrow> refs_inv (stopPeriodicGathering s)"
  by (auto simp: refs_inv_def hook_op_defs Let_def split: option.splits)

lemma refs_inv_start: "refs_inv s \<Longrightarrow> refs_inv (startPeriodicGathering p s)"
  by (auto simp: refs_inv_def hook_op_defs Let_def TIMEOUT_MAX_def CONTEXT_GATHER_INTERVAL_def
      split: option.splits)

lemma refs_inv_begin: "refs_inv s \<Longrightarrow> refs_inv (hook_gatherContext_begin p s)"
  by (auto simp: refs_inv_def hook_op_defs Let_def split: option.splits)

lemma refs_inv_effect: "refs_inv s \<Longrightarrow> refs_inv (periodic_effect s)"
  by (simp add: periodic_effect_def refs_inv_start refs_inv_stop)

lemma refs_inv_rerender: "refs_inv s \<Longrightarrow> refs_inv (rerender s)"
  by (simp add: rerender_def refs_inv_effect refs_inv_stop)

lemma refs_inv_dispatch: "refs_inv s \<Longrightarrow> refs_inv (dispatch a s)"
  by (simp add: refs_inv_def dispatch_def)

lemma refs_inv_batch: "refs_inv s \<Longrightarrow> refs_inv (foldl (\<lambda>x a. dispatch a x) s as)"
  by (induction as arbitrary: s) (simp_all add: refs_inv_dispatch)

lemma refs_inv_resume:
  "refs_inv s \<Longrightarrow> pending (browser s) \<noteq> 0 \<Longrightarrow>
   refs_inv (snd (hook_gatherContext_resume r
      (s\<lparr>browser := (browser s)\<lparr>pending := pending (browser s) - 1\<rparr>\<rparr>)))"
  by (auto simp: refs_inv_def hook_resume_refs hook_resume_rt split: if_splits option.splits)

lemma hook_inv_flush: "refs_inv s \<Longrightarrow> hook_inv (flush s)"
proof -
  assume a: "refs_inv s"
  have b: "refs_inv (s\<lparr>updateQueued := False\<rparr>)" using a by (simp add: refs_inv_def)
  have c: "refs_inv ((rerender s)\<lparr>updateQueued := False\<rparr>)"
    using refs_inv_rerender[OF a] by (simp add: refs_inv_def)
  show ?thesis using a b c by (simp add: hook_inv_def flush_def)
qed

lemma hook_inv_mount: "hook_inv (mount st)"
proof -
  let ?s = "\<lparr>state = st, intervalRef = None, isRunningRef = False, browser = rt0,
        mounted = True, updateQueued = False\<rparr>"
  have "refs_inv ?s" by (simp add: refs_inv_def rt0_def)
  then have "refs_inv (mount st)" unfolding mount_def by (rule refs_inv_effect)
  moreover have "\<not> updateQueued (mount st)"
    by (simp add: mount_def periodic_effect_def hook_op_defs Let_def split: option.splits)
  ultimately show ?thesis by (simp add: hook_inv_def)
qed

lemma hook_inv_step: "hook_inv s \<Longrightarrow> hook_inv (hook_step e s)"
proof (cases e)
  case (HookStart p)
  assume "hook_inv s"
  then show ?thesis using HookStart refs_inv_start[of s p]
    by (simp add: hook_step_def hook_inv_def hook_op_defs Let_def split: prod.splits)
next
  case HookStop
  assume "hook_inv s"
  then show ?thesis using HookStop refs_inv_stop[of s]
    by (simp add: hook_step_def hook_inv_def hook_op_defs Let_def split: option.splits)
next
  case (HookFire t p)
  assume "hook_inv s"
  then show ?thesis using HookFire refs_inv_begin[of s p]
    by (simp add: hook_step_def hook_inv_def hook_op_defs Let_def)
next
  case (HookSettle r)
  assume a: "hook_inv s"
  show ?thesis
  proof (cases "pending (browser s) = 0")
    case True
    then show ?thesis using a HookSettle by (simp add: hook_step_def)
  next
    case False
    have "refs_inv s" using a by (simp add: hook_inv_def)
    from hook_inv_flush[OF refs_inv_resume[OF this False]]
    show ?thesis using False HookSettle by (simp add: hook_step_def)
  qed
next
  case (Dispatch a)
  assume "hook_inv s"
  then have "refs_inv (dispatch a s)" by (simp add: hook_inv_def refs_inv_dispatch)
  from hook_inv_flush[OF this] show ?thesis using Dispatch by (simp add: hook_step_def)
next
  case (Batch as)
  assume "hook_inv s"
  then have "refs_inv (foldl (\<lambda>x a. dispatch a x) s as)"
    by (simp add: hook_inv_def refs_inv_batch)
  from hook_inv_flush[OF this] show ?thesis using Batch by (simp add: hook_step_def)
next
  case Unmount
  assume a: "hook_inv s"
  then have "refs_inv (stopPeriodicGathering (stopPeriodicGathering s))"
    by (simp add: hook_inv_def refs_inv_stop)
  then have "refs_inv ((stopPeriodicGathering (stopPeriodicGathering s))\<lparr>mounted := False\<rparr>)"
    by (simp add: refs_inv_def)
  moreover have "\<not> updateQueued (stopPeriodicGathering (stopPeriodicGathering s))"
    using a by (simp add: hook_inv_def hook_op_defs Let_def split: option.splits)
  ultimately show ?thesis using a Unmount by (simp add: hook_step_def hook_inv_def)
qed

lemma hook_inv_run: "hook_inv s \<Longrightarrow> hook_inv (hook_run es s)"
  by (induction es arbitrary: s) (simp_all add: hook_inv_step)

text \<open>What sends a request.\<close>

lemma stop_sent: "posts (trace (browser (stopPeriodicGathering s))) = posts (trace (browser s))"
  by (simp add: hook_op_defs posts_append Let_def split: option.splits)

lemma stop_pending: "pending (browser (stopPeriodicGathering s)) = pending (browser s)"
  by (simp add: hook_op_defs Let_def split: option.splits)

lemma start_sent:
  "posts (trace (browser (startPeriodicGathering p s))) = posts (trace (browser s))"
  by (simp add: hook_op_defs posts_append Let_def split: prod.splits)

lemma start_pending: "pending (browser (startPeriodicGathering p s)) = pending (browser s)"
  by (simp add: hook_op_defs Let_def split: prod.splits)

lemma flush_sent: "posts (trace (browser (flush s))) = posts (trace (browser s))"
  by (simp add: flush_def rerender_def periodic_effect_def stop_sent start_sent)

lemma flush_pending: "pending (browser (flush s)) = pending (browser s)"
  by (simp add: flush_def rerender_def periodic_effect_def stop_pending start_pending)

lemma batch_browser: "browser (foldl (\<lambda>x a. dispatch a x) s as) = browser s"
  by (induction as arbitrary: s) (simp_all add: dispatch_def)

lemma settle_sent: "sent (step (Settle r) s) = sent s"
  by (simp add: step_def sent_def toplevel_facts resume_sent)

lemma hook_settle_sent: "hook_sent (hook_step (HookSettle r) s) = hook_sent s"
  by (simp add: hook_step_def hook_sent_def flush_sent hook_resume_sent)

lemma fire_skipped:
  "isRunning (self s) \<Longrightarrow>
   sent (step (Fire t) s) = sent s \<and> in_flight (step (Fire t) s) = in_flight s
     \<and> self (step (Fire t) s) = self s"
  by (simp add: step_def sent_def in_flight_def script_defs posts_append)

lemma hook_fire_skipped: "isRunningRef s \<Longrightarrow> hook_step (HookFire t p) s = s"
  by (simp add: hook_step_def hook_gatherContext_begin_def)

lemma begin_sent:
  "flag_inv s \<Longrightarrow>
   sent (gatherContext_begin s) = sent s \<or>
   (in_flight s = 0 \<and> sent (gatherContext_begin s) = sent s @ [codebasePath (self s)]
      \<and> in_flight (gatherContext_begin s) = 1)"
  by (simp add: flag_inv_def sent_def in_flight_def script_defs posts_append Let_def)

lemma step_sent:
  assumes "flag_inv s"
  shows "sent (step e s) = sent s \<or>
   (in_flight s = 0 \<and> sent (step e s) = sent s @ [codebasePath (self s)]
      \<and> in_flight (step e s) = 1)"
proof (cases e)
  case CallStart
  then show ?thesis using assms
    by (auto simp: step_def flag_inv_def sent_def in_flight_def script_defs posts_append Let_def)
next
  case CallStop
  then show ?thesis
    by (simp add: step_def sent_def script_defs posts_append split: option.splits)
next
  case (Fire t)
  then show ?thesis using begin_sent[OF assms] by (simp add: step_def)
next
  case (Settle r)
  then show ?thesis using settle_sent[of r s] by simp
next
  case Signal
  then show ?thesis
    by (simp add: step_def sent_def script_defs posts_append split: option.splits)
next
  case (Elapse d)
  then show ?thesis by (simp add: step_def sent_def)
qed

lemma hook_step_sent:
  assumes "hook_inv s"
  shows "hook_sent (hook_step e s) = hook_sent s \<or>
   (hook_in_flight s = 0 \<and> (\<exists>p. hook_sent (hook_step e s) = hook_sent s @ [p])
      \<and> hook_in_flight (hook_step e s) = 1)"
proof (cases e)
  case (HookSettle r)
  then show ?thesis using hook_settle_sent[of r s] by simp
next
  case (HookFire t p)
  then show ?thesis using assms
    by (simp add: hook_step_def hook_inv_def refs_inv_def hook_sent_def hook_in_flight_def
        hook_op_defs posts_append Let_def)
next
  case (Dispatch a)
  then show ?thesis by (simp add: hook_step_def hook_sent_def flush_sent dispatch_def)
next
  case (Batch as)
  then show ?thesis by (simp add: hook_step_def hook_sent_def flush_sent batch_browser)
qed (simp_all add: hook_step_def hook_sent_def stop_sent start_sent)

section \<open>Serialized invocations\<close>

text \<open>
  C1. In every state \<open>s\<close> the script's process can reach from construction, and every
  state \<open>h\<close> the mounted hook can reach, by any sequence of starts, stops, timer ticks,
  settled requests, signals and dispatches: at most one request is in flight, and one is
  in flight exactly while the flag is set; a tick that fires while the flag is set sends
  nothing; whatever happens next sends at most one request, and only when none was in
  flight; and the settling of a request sends nothing, so a dropped tick is not made up
  for later.
\<close>

theorem single_flight:
  assumes "s = run es (boot p m)" and "h = hook_run hes (mount st)"
  shows "in_flight s \<le> 1
    \<and> (isRunning (self s) \<longleftrightarrow> in_flight s = 1)
    \<and> (isRunning (self s) \<longrightarrow>
         sent (step (Fire t) s) = sent s \<and> in_flight (step (Fire t) s) = in_flight s)
    \<and> (sent (step e s) = sent s \<or>
         (in_flight s = 0 \<and> sent (step e s) = sent s @ [codebasePath (self s)]
            \<and> in_flight (step e s) = 1))
    \<and> sent (step (Settle r) s) = sent s
    \<and> hook_in_flight h \<le> 1
    \<and> (isRunningRef h \<longleftrightarrow> hook_in_flight h = 1)
    \<and> (isRunningRef h \<longrightarrow> hook_step (HookFire t q) h = h)
    \<and> (hook_sent (hook_step he h) = hook_sent h \<or>
         (hook_in_flight h = 0 \<and> (\<exists>x. hook_sent (hook_step he h) = hook_sent h @ [x])
            \<and> hook_in_flight (hook_step he h) = 1))
    \<and> hook_sent (hook_step (HookSettle r) h) = hook_sent h"
proof -
  have i: "flag_inv s" unfolding assms by (rule flag_inv_run[OF flag_inv_boot])
  have j: "hook_inv h" unfolding assms by (rule hook_inv_run[OF hook_inv_mount])
  have a: "in_flight s \<le> 1 \<and> (isRunning (self s) \<longleftrightarrow> in_flight s = 1)"
    using i by (simp add: flag_inv_def in_flight_def)
  have b: "hook_in_flight h \<le> 1 \<and> (isRunningRef h \<longleftrightarrow> hook_in_flight h = 1)"
    using j by (simp add: hook_inv_def refs_inv_def hook_in_flight_def)
  show ?thesis
    using a b fire_skipped[of s t] step_sent[OF i, of e] settle_sent[of r s]
      hook_fire_skipped[of h t q] hook_step_sent[OF j, of he] hook_settle_sent[of r h]
    by blast
qed

theorem single_flight_witness:
  "isRunning (self (run [CallStart] (boot ''/repo'' (Some 1))))
   \<and> in_flight (run [CallStart] (boot ''/repo'' (Some 1))) = 1
   \<and> sent (step (Fire 1) (run [CallStart] (boot ''/repo'' (Some 1)))) = [''/repo'']
   \<and> isRunningRef (hook_run [HookStart ''/repo'', HookFire 1 ''/repo''] (mount initialState))
   \<and> hook_sent (hook_step (HookFire 1 ''/repo'')
        (hook_run [HookStart ''/repo'', HookFire 1 ''/repo''] (mount initialState))) = [''/repo'']"
  using single_flight[where es = "[CallStart]" and p = "''/repo''" and m = "Some 1"
      and hes = "[HookStart ''/repo'', HookFire 1 ''/repo'']" and st = initialState
      and t = 1 and e = CallStart and r = "Fulfilled 200 JNull" and q = "''/repo''"
      and he = HookStop, OF refl refl]
  by (simp add: step_def boot_def new_gatherer_def rt0_def script_defs sent_def in_flight_def
      Let_def hook_step_def mount_def periodic_effect_def hook_op_defs hook_sent_def
      initialState_def date_in_range_def TIMEOUT_MAX_def CONTEXT_GATHER_INTERVAL_def)

section \<open>A tick of the hook without a target\<close>

text \<open>
  C10. In the hook, a tick whose target is the empty string leaves everything as it
  was, whatever the state: no request, nothing on the console, no exception, no change to
  the flag or to the application state. The same guard returns when the flag is set.
\<close>

theorem hook_tick_without_target:
  "hook_gatherContext_begin [] h = h \<and> hook_step (HookFire t []) h = h"
  by (simp add: hook_gatherContext_begin_def hook_step_def)

section \<open>Reporting a skipped tick\<close>

text \<open>
  C4, as stated, fails for the hook: a tick that finds a request in flight returns
  without a word.
\<close>

theorem overlap_report_counterexample:
  "isRunningRef (hook_run [HookStart ''/repo'', HookFire 1 ''/repo''] (mount initialState))
   \<and> 1 \<in> fst ` set (timers (browser
         (hook_run [HookStart ''/repo'', HookFire 1 ''/repo''] (mount initialState))))
   \<and> added (browser (hook_run [HookStart ''/repo'', HookFire 1 ''/repo''] (mount initialState)))
        (browser (hook_step (HookFire 1 ''/repo'')
           (hook_run [HookStart ''/repo'', HookFire 1 ''/repo''] (mount initialState)))) = []"
  by (simp add: hook_step_def mount_def periodic_effect_def initialState_def rt0_def hook_op_defs
      added_def Let_def TIMEOUT_MAX_def CONTEXT_GATHER_INTERVAL_def)

text \<open>
  C4, amended. In the script a tick that finds the flag set prints one line of its own,
  and does nothing else; a tick that finds it clear prints the starting line and sends
  the request; and no settled request, succeeded, answered with a warning or failed,
  prints the skip line. In the hook a tick that finds the flag set changes nothing and
  reports nothing.
\<close>

theorem overlap_skip_reported:
  assumes "isRunning (self s)" and "isRunningRef h"
  shows "added (rt s) (rt (gatherContext_begin s)) = [Console StdOut AlreadyInProgress]
    \<and> self (gatherContext_begin s) = self s
    \<and> pending (rt (gatherContext_begin s)) = pending (rt s)
    \<and> timers (rt (gatherContext_begin s)) = timers (rt s)
    \<and> Console c AlreadyInProgress \<notin> set (added (rt s') (rt (snd (gatherContext_resume r s'))))
    \<and> added (rt (s'\<lparr>self := (self s')\<lparr>isRunning := False\<rparr>\<rparr>))
         (rt (gatherContext_begin (s'\<lparr>self := (self s')\<lparr>isRunning := False\<rparr>\<rparr>)))
        = [Console StdOut (StartingFor (codebasePath (self s'))), Post (codebasePath (self s'))]
    \<and> hook_gatherContext_begin q h = h"
proof -
  have a: "Console c AlreadyInProgress \<notin> set (added (rt s') (rt (snd (gatherContext_resume r s'))))"
    by (simp add: resume_defs added_def Let_def split: resume_splits)
  show ?thesis using assms a
    by (simp add: script_defs hook_gatherContext_begin_def added_def Let_def)
qed

theorem overlap_skip_reported_witness:
  "isRunning (self (snd (start (boot ''/repo'' (Some 1)))))
   \<and> isRunningRef (hook_gatherContext_begin ''/repo'' (mount initialState))
   \<and> added (rt (snd (start (boot ''/repo'' (Some 1)))))
        (rt (gatherContext_begin (snd (start (boot ''/repo'' (Some 1))))))
       = [Console StdOut AlreadyInProgress]
   \<and> hook_gatherContext_begin ''/repo'' (hook_gatherContext_begin ''/repo'' (mount initialState))
       = hook_gatherContext_begin ''/repo'' (mount initialState)"
proof -
  have a: "isRunning (self (snd (start (boot ''/repo'' (Some 1)))))"
    by (simp add: boot_def new_gatherer_def rt0_def script_defs date_in_range_def Let_def
        split: prod.splits)
  have b: "isRunningRef (hook_gatherContext_begin ''/repo'' (mount initialState))"
    by (simp add: mount_def periodic_effect_def initialState_def rt0_def hook_op_defs Let_def)
  show ?thesis using a b overlap_skip_reported[OF a b] by simp
qed

section \<open>Starting twice\<close>

text \<open>
  C6, as stated, fails for the hook: its second start reports nothing.
\<close>

theorem second_start_counterexample:
  "intervalRef (startPeriodicGathering ''/repo'' (mount initialState)) = Some 1
   \<and> added (browser (startPeriodicGathering ''/repo'' (mount initialState)))
        (browser (startPeriodicGathering ''/repo''
           (startPeriodicGathering ''/repo'' (mount initialState)))) = []"
  by (simp add: mount_def periodic_effect_def initialState_def rt0_def hook_op_defs added_def
      Let_def)

text \<open>
  C6, amended. While a timer is armed, \<open>start\<close> is a no-op: no timer is armed or cleared,
  no request is sent, no field of the scheduler changes and no exception is raised. The
  script reports that it is already running, with one console line; the hook reports
  nothing and leaves the whole page as it was. So two starts in a row arm the timers and
  send the requests of one.
\<close>

theorem second_start_noop:
  assumes "intervalId (self s) \<noteq> None" and "intervalRef h \<noteq> None"
  shows "fst (start s) = None
    \<and> added (rt s) (rt (snd (start s))) = [Console StdOut AlreadyRunning]
    \<and> self (snd (start s)) = self s
    \<and> timers (rt (snd (start s))) = timers (rt s)
    \<and> nextId (rt (snd (start s))) = nextId (rt s)
    \<and> pending (rt (snd (start s))) = pending (rt s)
    \<and> exited (snd (start s)) = exited s
    \<and> sent (snd (start s)) = sent s
    \<and> startPeriodicGathering q h = h
    \<and> timers (rt (snd (start (snd (start s0))))) = timers (rt (snd (start s0)))
    \<and> sent (snd (start (snd (start s0)))) = sent (snd (start s0))
    \<and> timers (browser (startPeriodicGathering q (startPeriodicGathering q h0)))
        = timers (browser (startPeriodicGathering q h0))
    \<and> hook_sent (startPeriodicGathering q (startPeriodicGathering q h0))
        = hook_sent (startPeriodicGathering q h0)"
proof -
  have a: "timers (rt (snd (start (snd (start s0))))) = timers (rt (snd (start s0)))
      \<and> sent (snd (start (snd (start s0)))) = sent (snd (start s0))"
    by (simp add: script_defs sent_def posts_append Let_def split: prod.splits)
  have b: "timers (browser (startPeriodicGathering q (startPeriodicGathering q h0)))
        = timers (browser (startPeriodicGathering q h0))
      \<and> hook_sent (startPeriodicGathering q (startPeriodicGathering q h0))
        = hook_sent (startPeriodicGathering q h0)"
    by (simp add: hook_op_defs hook_sent_def posts_append Let_def split: prod.splits)
  show ?thesis using assms a b
    by (simp add: script_defs hook_op_defs added_def sent_def posts_append)
qed

theorem second_start_noop_witness:
  "intervalId (self (snd (start (boot ''/repo'' (Some 1))))) \<noteq> None
   \<and> intervalRef (startPeriodicGathering ''/repo'' (mount initialState)) \<noteq> None
   \<and> timers (rt (snd (start (snd (start (boot ''/repo'' (Some 1))))))) = [(1, 60000)]
   \<and> sent (snd (start (snd (start (boot ''/repo'' (Some 1)))))) = [''/repo'']"
proof -
  have a: "intervalId (self (snd (start (boot ''/repo'' (Some 1))))) \<noteq> None"
    by (simp add: boot_def new_gatherer_def rt0_def script_defs date_in_range_def Let_def
        split: prod.splits)
  have b: "intervalRef (startPeriodicGathering ''/repo'' (mount initialState)) \<noteq> None"
    by (simp add: mount_def periodic_effect_def initialState_def rt0_def hook_op_defs Let_def)
  have c: "timers (rt (snd (start (boot ''/repo'' (Some 1))))) = [(1, 60000)]
      \<and> sent (snd (start (boot ''/repo'' (Some 1)))) = [''/repo'']"
    by (simp add: boot_def new_gatherer_def rt0_def script_defs sent_def date_in_range_def
        TIMEOUT_MAX_def Let_def split: prod.splits)
  show ?thesis using a b c second_start_noop[OF a b] by simp
qed

lemmas main_defs = main_def arg_def parseInt_def is_space_def is_digit_def digit_of_def
  DEFAULT_INTERVAL_MINUTES_def

section \<open>The interval on the command line\<close>

text \<open>
  C7. With no interval argument the script runs every 3 minutes, and a negative interval
  makes it exit with status 1 before anything is started. But the interval \<open>0\<close> is below
  the minimum too, and the script does not reject it: \<open>parseInt(args[1]) || 3\<close> replaces
  it by the default before the test \<open>intervalMinutes < 1\<close> is reached, so the scheduler
  is constructed and started, and the first request is sent.
\<close>

theorem zero_interval_accepted:
  "(case main [''/repo'', ''0''] rt0 of
      Exited c r \<Rightarrow> False
    | Launched s \<Rightarrow>
        intervalMinutes (self s) = 3 \<and> exited s = None \<and> sent s = [''/repo'']
        \<and> timers (rt s) = [(1, 180000)])
   \<and> (case main [''/repo''] rt0 of
        Exited c r \<Rightarrow> False
      | Launched s \<Rightarrow> intervalMinutes (self s) = 3 \<and> timers (rt s) = [(1, 180000)])
   \<and> main [''/repo'', ''-2''] rt0
       = Exited 1 (rt0\<lparr>trace := [Console StdErr IntervalTooSmall, Exit 1]\<rparr>)"
  by (simp add: main_defs rt0_def new_gatherer_def script_defs sent_def date_in_range_def
      TIMEOUT_MAX_def Let_def)

section \<open>An empty target\<close>

text \<open>
  C8, as stated, fails: \<open>start\<close> itself validates nothing. A gatherer constructed with the
  empty string as its target sends its first request on \<open>start\<close>.
\<close>

theorem empty_target_counterexample:
  "codebasePath (self (boot [] (Some 3))) = []
   \<and> fst (start (boot [] (Some 3))) = None
   \<and> sent (snd (start (boot [] (Some 3)))) = [[]]
   \<and> in_flight (snd (start (boot [] (Some 3)))) = 1
   \<and> exited (snd (start (boot [] (Some 3)))) = None"
  by (simp add: boot_def new_gatherer_def rt0_def script_defs sent_def in_flight_def
      date_in_range_def Let_def split: prod.splits)

text \<open>
  C8, amended. The command line rejects the empty target: when the first argument is
  missing or is the empty string, \<open>main\<close> leaves through \<open>process.exit\<close> before a gatherer
  is constructed, with status 1 (status 0 if a help flag is among the arguments), having
  sent no request and armed no timer. In the hook, start with an empty target changes
  nothing and sends nothing.
\<close>

theorem empty_target_rejected:
  assumes "arg args 0 = None \<or> arg args 0 = Some []"
  shows "(\<exists>r'. main args r
            = Exited (if ''--help'' \<in> set args \<or> ''-h'' \<in> set args then 0 else 1) r'
          \<and> posts (trace r') = posts (trace r) \<and> timers r' = timers r
          \<and> pending r' = pending r)
    \<and> startPeriodicGathering [] h = h"
proof -
  have a: "\<exists>r'. main args r
            = Exited (if ''--help'' \<in> set args \<or> ''-h'' \<in> set args then 0 else 1) r'
          \<and> posts (trace r') = posts (trace r) \<and> timers r' = timers r
          \<and> pending r' = pending r"
    using assms by (auto simp: main_def emit_def posts_append Let_def)
  have b: "startPeriodicGathering [] h = h"
    by (simp add: startPeriodicGathering_def)
  show ?thesis using a b by simp
qed

theorem empty_target_rejected_witness:
  "arg ['''', ''5''] 0 = Some []
   \<and> main ['''', ''5''] rt0
       = Exited 1 (rt0\<lparr>trace := [Console StdErr PathRequired, Console StdErr Usage,
                                 Console StdErr RunHelp, Exit 1]\<rparr>)"
proof -
  have a: "arg ['''', ''5''] 0 = Some []" by (simp add: arg_def)
  have b: "main ['''', ''5''] rt0
       = Exited 1 (rt0\<lparr>trace := [Console StdErr PathRequired, Console StdErr Usage,
                                 Console StdErr RunHelp, Exit 1]\<rparr>)"
    by (simp add: main_defs rt0_def emit_def Let_def)
  show ?thesis using a b empty_target_rejected[OF disjI2, OF a, of rt0] by simp
qed

text \<open>What a settled request makes the script report.\<close>

lemma script_report_request:
  "fst (gatherContext_resume (Rejected (ErrRequest msg)) s) = None"
  "added (rt s) (rt (snd (gatherContext_resume (Rejected (ErrRequest msg)) s)))
     = [Console StdErr Failed, Console StdErr NetworkError]"
  by (simp_all add: resume_defs added_def Let_def)

lemma script_report_other:
  "fst (gatherContext_resume (Rejected (ErrOther msg)) s) = None"
  "added (rt s) (rt (snd (gatherContext_resume (Rejected (ErrOther msg)) s)))
     = [Console StdErr Failed, Console StdErr (ErrMessage msg)]"
  by (simp_all add: resume_defs added_def Let_def)

lemma script_report_response:
  assumes "stringifies (error_detail d txt)"
  shows "fst (gatherContext_resume (Rejected (ErrResponse c d txt msg)) s) = None"
    and "added (rt s) (rt (snd (gatherContext_resume (Rejected (ErrResponse c d txt msg)) s)))
     = [Console StdErr Failed, Console StdErr (ErrStatus c),
        Console StdErr (ErrDetail (error_detail d txt))]"
  using assms by (simp_all add: resume_defs added_def Let_def split: sum.splits)

lemma script_report_fulfilled:
  "fst (gatherContext_resume (Fulfilled c b) s) = None"
  "added (rt s) (rt (snd (gatherContext_resume (Fulfilled c b) s)))
     = (if truthy b \<and> get_prop b ''statuscode'' = Inr (JNum 200) then
          Console StdOut CompletedOk #
            (if stringifies (optional_prop b ''detail'') then
               Console StdOut (StatusIs (optional_prop b ''detail'')) #
                 (if stringifies (optional_prop b ''time_taken_seconds'') then
                    [Console StdOut (TimeTaken (optional_prop b ''time_taken_seconds''))]
                  else [Console StdErr Failed, Console StdErr (ErrMessage (message TypeError))])
             else [Console StdErr Failed, Console StdErr (ErrMessage (message TypeError))])
        else [Console StdOut CompletedWarn, Console StdOut (ResponseIs b)])"
  by (cases b;
      simp add: resume_defs template_Inr added_def Let_def split: sum.splits option.splits)+

lemma hook_report_rejected:
  "added (browser h) (browser (snd (hook_gatherContext_resume (Rejected e) h)))
     = [Console StdErr (ApiError (api_error_value e)), Console StdErr (ServiceError e),
        Console StdErr (HookFailed (AxiosError e))]"
  "state (snd (hook_gatherContext_resume (Rejected e) h)) = state h"
  "updateQueued (snd (hook_gatherContext_resume (Rejected e) h)) = updateQueued h"
  by (simp_all add: hook_defs added_def)

lemma hook_report_fulfilled:
  "added (browser h) (browser (snd (hook_gatherContext_resume (Fulfilled c b) h)))
     = Console StdOut (ResponseReceived c) #
       (case get_prop b ''statuscode'' of
          Inl x \<Rightarrow> [Console StdErr (HookFailed x)]
        | Inr sc \<Rightarrow> [Console StdOut (HookCompleted sc (optional_prop b ''time_taken_seconds'')
                                      (optional_prop b ''detail''))])"
  "state (snd (hook_gatherContext_resume (Fulfilled c b) h))
     = (if get_prop b ''statuscode'' = Inr (JNum 200)
        then (state h)\<lparr>isContextGathered := True\<rparr> else state h)"
  "updateQueued (snd (hook_gatherContext_resume (Fulfilled c b) h))
     = (updateQueued h \<or> get_prop b ''statuscode'' = Inr (JNum 200))"
  by (cases b; simp add: hook_defs added_def optional_prop_def Let_def split: option.splits)+

text \<open>The settling of a request as a step.\<close>

lemma resume_pending:
  "gatherContext_resume r (s\<lparr>rt := (rt s)\<lparr>pending := n\<rparr>\<rparr>)
     = (fst (gatherContext_resume r s),
        (snd (gatherContext_resume r s))
          \<lparr>rt := (rt (snd (gatherContext_resume r s)))\<lparr>pending := n\<rparr>\<rparr>)"
  by (simp add: resume_defs template_Inr Let_def split: resume_splits)

lemma hook_resume_pending:
  "snd (hook_gatherContext_resume r (s\<lparr>browser := (browser s)\<lparr>pending := n\<rparr>\<rparr>))
     = (snd (hook_gatherContext_resume r s))
          \<lparr>browser := (browser (snd (hook_gatherContext_resume r s)))\<lparr>pending := n\<rparr>\<rparr>"
  by (simp add: hook_defs Let_def split: outcome.splits sum.splits prod.splits)

lemma settle_step:
  assumes "exited s = None" and "pending (rt s) \<noteq> 0" and "fst (gatherContext_resume r s) = None"
  shows "step (Settle r) s
     = (snd (gatherContext_resume r s))
         \<lparr>rt := (rt (snd (gatherContext_resume r s)))\<lparr>pending := pending (rt s) - 1\<rparr>\<rparr>"
  using assms by (simp add: step_def resume_pending toplevel_def)

lemma settle_step_facts:
  assumes "exited s = None" and "pending (rt s) \<noteq> 0" and "fst (gatherContext_resume r s) = None"
  shows "added (rt s) (rt (step (Settle r) s)) = added (rt s) (rt (snd (gatherContext_resume r s)))"
    and "self (step (Settle r) s) = (self s)\<lparr>isRunning := False\<rparr>"
    and "timers (rt (step (Settle r) s)) = timers (rt s)"
    and "nextId (rt (step (Settle r) s)) = nextId (rt s)"
    and "now (rt (step (Settle r) s)) = now (rt s)"
    and "pending (rt (step (Settle r) s)) = pending (rt s) - 1"
    and "exited (step (Settle r) s) = None"
  using assms
  by (simp_all add: settle_step[OF assms] added_def resume_self resume_rt resume_exited)

lemma hook_settle_step:
  assumes "pending (browser h) \<noteq> 0"
  shows "hook_step (HookSettle r) h
     = flush ((snd (hook_gatherContext_resume r h))
         \<lparr>browser := (browser (snd (hook_gatherContext_resume r h)))
             \<lparr>pending := pending (browser h) - 1\<rparr>\<rparr>)"
  using assms by (simp add: hook_step_def hook_resume_pending)

lemma flush_idle: "\<not> updateQueued s \<Longrightarrow> flush s = s"
  by (simp add: flush_def)

lemma flush_refs:
  "isRunningRef (flush s) = isRunningRef s"
  "state (flush s) = state s"
  "mounted (flush s) = mounted s"
  by (simp_all add: flush_def rerender_def periodic_effect_def hook_op_defs Let_def
      split: option.splits prod.splits)

lemma stop_trace:
  "\<exists>zs. trace (browser (stopPeriodicGathering s)) = trace (browser s) @ zs"
  by (simp add: hook_op_defs Let_def split: option.splits)

lemma start_trace:
  "\<exists>zs. trace (browser (startPeriodicGathering p s)) = trace (browser s) @ zs"
  by (simp add: hook_op_defs Let_def split: prod.splits)

lemma effect_trace: "\<exists>zs. trace (browser (periodic_effect s)) = trace (browser s) @ zs"
  by (simp add: periodic_effect_def stop_trace start_trace)

lemma rerender_trace: "\<exists>zs. trace (browser (rerender s)) = trace (browser s) @ zs"
proof -
  obtain a where a: "trace (browser (stopPeriodicGathering s)) = trace (browser s) @ a"
    using stop_trace by blast
  obtain b where b: "trace (browser (stopPeriodicGathering (stopPeriodicGathering s)))
      = trace (browser (stopPeriodicGathering s)) @ b"
    using stop_trace by blast
  obtain c where c: "trace (browser (rerender s))
      = trace (browser (stopPeriodicGathering (stopPeriodicGathering s))) @ c"
    unfolding rerender_def using effect_trace by blast
  show ?thesis using a b c by simp
qed

lemma flush_trace: "\<exists>zs. trace (browser (flush s)) = trace (browser s) @ zs"
  using rerender_trace[of s] by (auto simp: flush_def)

lemma hook_settle_quiet:
  assumes "pending (browser h) \<noteq> 0" and "\<not> updateQueued h"
    and "\<not> updateQueued (snd (hook_gatherContext_resume r h))"
  shows "hook_step (HookSettle r) h
     = (snd (hook_gatherContext_resume r h))
         \<lparr>browser := (browser (snd (hook_gatherContext_resume r h)))
             \<lparr>pending := pending (browser h) - 1\<rparr>\<rparr>"
  using assms by (simp add: hook_settle_step flush_def)

lemma hook_settle_quiet_facts:
  assumes "pending (browser h) \<noteq> 0" and "\<not> updateQueued h"
    and "\<not> updateQueued (snd (hook_gatherContext_resume r h))"
  shows "added (browser h) (browser (hook_step (HookSettle r) h))
           = added (browser h) (browser (snd (hook_gatherContext_resume r h)))"
    and "intervalRef (hook_step (HookSettle r) h) = intervalRef h"
    and "timers (browser (hook_step (HookSettle r) h)) = timers (browser h)"
    and "nextId (browser (hook_step (HookSettle r) h)) = nextId (browser h)"
    and "mounted (hook_step (HookSettle r) h) = mounted h"
  by (simp_all add: hook_settle_quiet[OF assms] added_def hook_resume_refs hook_resume_rt)

lemma hook_settle_facts:
  assumes "pending (browser h) \<noteq> 0"
  shows "isRunningRef (hook_step (HookSettle r) h) = False"
    and "state (hook_step (HookSettle r) h) = state (snd (hook_gatherContext_resume r h))"
    and "pending (browser (hook_step (HookSettle r) h)) = pending (browser h) - 1"
    and "\<exists>zs. added (browser h) (browser (hook_step (HookSettle r) h))
           = added (browser h) (browser (snd (hook_gatherContext_resume r h))) @ zs"
proof -
  let ?x = "(snd (hook_gatherContext_resume r h))
         \<lparr>browser := (browser (snd (hook_gatherContext_resume r h)))
             \<lparr>pending := pending (browser h) - 1\<rparr>\<rparr>"
  have e: "hook_step (HookSettle r) h = flush ?x" by (rule hook_settle_step[OF assms])
  show "isRunningRef (hook_step (HookSettle r) h) = False"
    by (simp add: e flush_refs hook_resume_refs)
  show "state (hook_step (HookSettle r) h) = state (snd (hook_gatherContext_resume r h))"
    by (simp add: e flush_refs)
  show "pending (browser (hook_step (HookSettle r) h)) = pending (browser h) - 1"
    by (simp add: e flush_pending)
  obtain zs where z: "trace (browser (flush ?x)) = trace (browser ?x) @ zs"
    using flush_trace by blast
  obtain ys where y: "trace (browser (snd (hook_gatherContext_resume r h)))
      = trace (browser h) @ ys"
    using hook_resume_trace(1)[of r h] by blast
  have "added (browser h) (browser (hook_step (HookSettle r) h))
           = added (browser h) (browser (snd (hook_gatherContext_resume r h))) @ zs"
    using z by (simp add: e added_def y)
  then show "\<exists>zs. added (browser h) (browser (hook_step (HookSettle r) h))
           = added (browser h) (browser (snd (hook_gatherContext_resume r h))) @ zs"
    by blast
qed

lemma settle_crash:
  assumes "exited s = None" and "pending (rt s) \<noteq> 0"
    and "fst (gatherContext_resume r s) = Some e"
  shows "exited (step (Settle r) s) = Some 1"
  using assms
  by (cases "gatherContext_resume r s")
     (simp add: step_def resume_pending toplevel_def crash_def process_exit_def)

section \<open>Failures inside a tick\<close>

text \<open>
  C3, as stated, fails. A response that arrives with a body whose status code is not 200
  is no failure to either scheduler: the hook prints its ordinary completion line and the
  script a warning, both on the output stream. And the script's catch block renders the
  error text of an error response into a template literal: when that text is an object
  with a \<open>toString\<close> key, the rendering throws, the exception leaves the tick, and Node
  ends the process.
\<close>

theorem tick_failure_counterexample:
  "added (browser (mount initialState))
      (browser (snd (hook_gatherContext_resume
         (Fulfilled 200 (JObj [(''statuscode'', JNum 500)])) (mount initialState))))
     = [Console StdOut (ResponseReceived 200),
        Console StdOut (HookCompleted (JNum 500) JUndefined JUndefined)]
   \<and> added (rt (boot ''/repo'' (Some 1)))
      (rt (snd (gatherContext_resume
         (Fulfilled 200 (JObj [(''statuscode'', JNum 500)])) (boot ''/repo'' (Some 1)))))
     = [Console StdOut CompletedWarn,
        Console StdOut (ResponseIs (JObj [(''statuscode'', JNum 500)]))]
   \<and> fst (gatherContext_resume
        (Rejected (ErrResponse 500 (JObj [(''error'', JObj [(''toString'', JNum 1)])])
           ''Internal Server Error'' ''Request failed with status code 500''))
        (boot ''/repo'' (Some 1))) = Some TypeError
   \<and> exited (run [CallStart,
        Settle (Rejected (ErrResponse 500 (JObj [(''error'', JObj [(''toString'', JNum 1)])])
           ''Internal Server Error'' ''Request failed with status code 500''))]
        (boot ''/repo'' (Some 1))) = Some 1"
proof -
  have a: "added (browser (mount initialState))
      (browser (snd (hook_gatherContext_resume
         (Fulfilled 200 (JObj [(''statuscode'', JNum 500)])) (mount initialState))))
     = [Console StdOut (ResponseReceived 200),
        Console StdOut (HookCompleted (JNum 500) JUndefined JUndefined)]"
    by (simp add: hook_report_fulfilled optional_prop_def)
  have b: "added (rt (boot ''/repo'' (Some 1)))
      (rt (snd (gatherContext_resume
         (Fulfilled 200 (JObj [(''statuscode'', JNum 500)])) (boot ''/repo'' (Some 1)))))
     = [Console StdOut CompletedWarn,
        Console StdOut (ResponseIs (JObj [(''statuscode'', JNum 500)]))]"
    by (simp add: script_report_fulfilled)
  have c: "fst (gatherContext_resume
        (Rejected (ErrResponse 500 (JObj [(''error'', JObj [(''toString'', JNum 1)])])
           ''Internal Server Error'' ''Request failed with status code 500''))
        (boot ''/repo'' (Some 1))) = Some TypeError"
    by (simp add: resume_throws error_detail_def optional_prop_def)
  have e: "exited (snd (start (boot ''/repo'' (Some 1)))) = None
      \<and> pending (rt (snd (start (boot ''/repo'' (Some 1))))) \<noteq> 0
      \<and> fst (start (boot ''/repo'' (Some 1))) = None
      \<and> exited (boot ''/repo'' (Some 1)) = None"
    by (simp add: boot_def new_gatherer_def rt0_def script_defs date_in_range_def
        TIMEOUT_MAX_def Let_def split: prod.splits)
  have f: "fst (gatherContext_resume
        (Rejected (ErrResponse 500 (JObj [(''error'', JObj [(''toString'', JNum 1)])])
           ''Internal Server Error'' ''Request failed with status code 500''))
        (snd (start (boot ''/repo'' (Some 1))))) = Some TypeError"
    by (simp add: resume_throws error_detail_def optional_prop_def)
  have d: "exited (run [CallStart,
        Settle (Rejected (ErrResponse 500 (JObj [(''error'', JObj [(''toString'', JNum 1)])])
           ''Internal Server Error'' ''Request failed with status code 500''))]
        (boot ''/repo'' (Some 1))) = Some 1"
    using e f settle_crash[of "snd (start (boot ''/repo'' (Some 1)))" _ TypeError]
    by (simp add: step_def[of CallStart] toplevel_facts)
  show ?thesis using a b c d by simp
qed

text \<open>
  C3, amended. A rejected request is caught inside the tick and reported on the error
  stream: by the script under its kind (a network error when no response came, the
  message of any other error, and the status with the error text of an error response
  when that text can be rendered), by the hook as the error it caught, after the
  interceptor and the service have logged it. A response that arrives is never a
  failure: the script reports it as a success when its body carries status code 200 and
  as a warning otherwise, the hook with its ordinary completion line; what goes wrong
  while such a report is made is caught and reported as a failure. On all these paths
  no exception leaves the tick, and the flag is released on every path. When the
  script's tick returns without an exception the process goes on and its timers are as
  they were; the hook's tick always does, and after a rejected request its timer, its
  handle and the application state are as they were.
\<close>

theorem tick_failure_reported:
  "isRunning (self (snd (gatherContext_resume r s))) = False
   \<and> fst (gatherContext_resume (Rejected (ErrRequest msg)) s) = None
   \<and> added (rt s) (rt (snd (gatherContext_resume (Rejected (ErrRequest msg)) s)))
       = [Console StdErr Failed, Console StdErr NetworkError]
   \<and> fst (gatherContext_resume (Rejected (ErrOther msg)) s) = None
   \<and> added (rt s) (rt (snd (gatherContext_resume (Rejected (ErrOther msg)) s)))
       = [Console StdErr Failed, Console StdErr (ErrMessage msg)]
   \<and> (stringifies (error_detail d tx) \<longrightarrow>
        fst (gatherContext_resume (Rejected (ErrResponse c d tx msg)) s) = None
        \<and> added (rt s) (rt (snd (gatherContext_resume (Rejected (ErrResponse c d tx msg)) s)))
            = [Console StdErr Failed, Console StdErr (ErrStatus c),
               Console StdErr (ErrDetail (error_detail d tx))])
   \<and> fst (gatherContext_resume (Fulfilled c b) s) = None
   \<and> added (rt s) (rt (snd (gatherContext_resume (Fulfilled c b) s)))
       = (if truthy b \<and> get_prop b ''statuscode'' = Inr (JNum 200) then
            Console StdOut CompletedOk #
              (if stringifies (optional_prop b ''detail'') then
                 Console StdOut (StatusIs (optional_prop b ''detail'')) #
                   (if stringifies (optional_prop b ''time_taken_seconds'') then
                      [Console StdOut (TimeTaken (optional_prop b ''time_taken_seconds''))]
                    else [Console StdErr Failed, Console StdErr (ErrMessage (message TypeError))])
               else [Console StdErr Failed, Console StdErr (ErrMessage (message TypeError))])
          else [Console StdOut CompletedWarn, Console StdOut (ResponseIs b)])
   \<and> (fst (gatherContext_resume r s) = None \<longrightarrow> exited s = None \<longrightarrow> pending (rt s) \<noteq> 0 \<longrightarrow>
        exited (step (Settle r) s) = None
        \<and> timers (rt (step (Settle r) s)) = timers (rt s)
        \<and> self (step (Settle r) s) = (self s)\<lparr>isRunning := False\<rparr>)
   \<and> fst (hook_gatherContext_resume r h) = None
   \<and> isRunningRef (snd (hook_gatherContext_resume r h)) = False
   \<and> added (browser h) (browser (snd (hook_gatherContext_resume (Rejected e) h)))
       = [Console StdErr (ApiError (api_error_value e)), Console StdErr (ServiceError e),
          Console StdErr (HookFailed (AxiosError e))]
   \<and> added (browser h) (browser (snd (hook_gatherContext_resume (Fulfilled c b) h)))
       = Console StdOut (ResponseReceived c) #
         (case get_prop b ''statuscode'' of
            Inl x \<Rightarrow> [Console StdErr (HookFailed x)]
          | Inr sc \<Rightarrow> [Console StdOut (HookCompleted sc (optional_prop b ''time_taken_seconds'')
                                        (optional_prop b ''detail''))])
   \<and> (pending (browser h) \<noteq> 0 \<longrightarrow> \<not> updateQueued h \<longrightarrow>
        isRunningRef (hook_step (HookSettle (Rejected e)) h) = False
        \<and> intervalRef (hook_step (HookSettle (Rejected e)) h) = intervalRef h
        \<and> timers (browser (hook_step (HookSettle (Rejected e)) h)) = timers (browser h)
        \<and> state (hook_step (HookSettle (Rejected e)) h) = state h)"
proof -
  have a: "stringifies (error_detail d tx) \<longrightarrow>
        fst (gatherContext_resume (Rejected (ErrResponse c d tx msg)) s) = None
        \<and> added (rt s) (rt (snd (gatherContext_resume (Rejected (ErrResponse c d tx msg)) s)))
            = [Console StdErr Failed, Console StdErr (ErrStatus c),
               Console StdErr (ErrDetail (error_detail d tx))]"
    using script_report_response by blast
  have b: "fst (gatherContext_resume r s) = None \<longrightarrow> exited s = None \<longrightarrow> pending (rt s) \<noteq> 0 \<longrightarrow>
        exited (step (Settle r) s) = None
        \<and> timers (rt (step (Settle r) s)) = timers (rt s)
        \<and> self (step (Settle r) s) = (self s)\<lparr>isRunning := False\<rparr>"
    using settle_step_facts[of s r] by blast
  have c: "pending (browser h) \<noteq> 0 \<longrightarrow> \<not> updateQueued h \<longrightarrow>
        isRunningRef (hook_step (HookSettle (Rejected e)) h) = False
        \<and> intervalRef (hook_step (HookSettle (Rejected e)) h) = intervalRef h
        \<and> timers (browser (hook_step (HookSettle (Rejected e)) h)) = timers (browser h)
        \<and> state (hook_step (HookSettle (Rejected e)) h) = state h"
    using hook_settle_quiet_facts[of h "Rejected e"] hook_settle_facts[of h "Rejected e"]
    by (simp add: hook_report_rejected)
  show ?thesis
    using a b c
    by (simp only: resume_self script_report_request script_report_other
        script_report_fulfilled hook_resume_no_throw hook_resume_refs hook_report_rejected
        hook_report_fulfilled) simp
qed

theorem tick_failure_reported_witness:
  "stringifies (error_detail (JObj [(''error'', JStr ''boom'')]) ''Internal Server Error'')
   \<and> fst (gatherContext_resume (Rejected (ErrRequest ''Network Error''))
        (snd (start (boot ''/repo'' (Some 1))))) = None
   \<and> exited (snd (start (boot ''/repo'' (Some 1)))) = None
   \<and> pending (rt (snd (start (boot ''/repo'' (Some 1))))) \<noteq> 0
   \<and> pending (browser (hook_gatherContext_begin ''/repo'' (mount initialState))) \<noteq> 0
   \<and> \<not> updateQueued (hook_gatherContext_begin ''/repo'' (mount initialState))
   \<and> added (rt (boot ''/repo'' (Some 1)))
        (rt (snd (gatherContext_resume
           (Rejected (ErrResponse 500 (JObj [(''error'', JStr ''boom'')])
              ''Internal Server Error'' ''Request failed with status code 500''))
           (boot ''/repo'' (Some 1)))))
       = [Console StdErr Failed, Console StdErr (ErrStatus 500),
          Console StdErr (ErrDetail (JStr ''boom''))]
   \<and> timers (rt (step (Settle (Rejected (ErrRequest ''Network Error'')))
        (snd (start (boot ''/repo'' (Some 1)))))) = [(1, 60000)]
   \<and> timers (browser (hook_step (HookSettle (Rejected (ErrRequest ''Network Error'')))
        (hook_gatherContext_begin ''/repo'' (mount initialState)))) = []"
proof -
  have a: "stringifies (error_detail (JObj [(''error'', JStr ''boom'')]) ''Internal Server Error'')"
    and a': "error_detail (JObj [(''error'', JStr ''boom'')]) ''Internal Server Error''
      = JStr ''boom''"
    by (simp_all add: error_detail_def optional_prop_def)
  have b: "fst (gatherContext_resume (Rejected (ErrRequest ''Network Error''))
        (snd (start (boot ''/repo'' (Some 1))))) = None"
    by (simp add: resume_throws)
  have c: "exited (snd (start (boot ''/repo'' (Some 1)))) = None
      \<and> pending (rt (snd (start (boot ''/repo'' (Some 1))))) \<noteq> 0
      \<and> timers (rt (snd (start (boot ''/repo'' (Some 1))))) = [(1, 60000)]"
    by (simp add: boot_def new_gatherer_def rt0_def script_defs date_in_range_def
        TIMEOUT_MAX_def Let_def split: prod.splits)
  have d: "pending (browser (hook_gatherContext_begin ''/repo'' (mount initialState))) \<noteq> 0
      \<and> \<not> updateQueued (hook_gatherContext_begin ''/repo'' (mount initialState))
      \<and> timers (browser (hook_gatherContext_begin ''/repo'' (mount initialState))) = []"
    by (simp add: mount_def periodic_effect_def initialState_def rt0_def hook_op_defs Let_def)
  show ?thesis
    using a a' b c d
      tick_failure_reported[where s = "snd (start (boot ''/repo'' (Some 1)))"
        and r = "Rejected (ErrRequest ''Network Error'')"
        and h = "hook_gatherContext_begin ''/repo'' (mount initialState)"
        and e = "ErrRequest ''Network Error''"]
      tick_failure_reported[where s = "boot ''/repo'' (Some 1)"
        and d = "JObj [(''error'', JStr ''boom'')]" and tx = "''Internal Server Error''"
        and c = 500 and msg = "''Request failed with status code 500''"]
    by simp
qed

section \<open>Starting from Idle\<close>

text \<open>
  C2, as stated, fails. In the script a \<open>start\<close> that follows a \<open>stop\<close> while the first
  request is still in flight sends nothing; and the hook's start from Idle, with a
  target, only arms the timer.
\<close>

theorem start_from_idle_counterexample:
  "intervalId (self (run [CallStart, CallStop] (boot ''/repo'' (Some 1)))) = None
   \<and> exited (run [CallStart, CallStop] (boot ''/repo'' (Some 1))) = None
   \<and> sent (step CallStart (run [CallStart, CallStop] (boot ''/repo'' (Some 1))))
       = sent (run [CallStart, CallStop] (boot ''/repo'' (Some 1)))
   \<and> intervalId (self (step CallStart (run [CallStart, CallStop] (boot ''/repo'' (Some 1)))))
       = Some 2
   \<and> intervalRef (mount initialState) = None
   \<and> intervalRef (startPeriodicGathering ''/repo'' (mount initialState)) = Some 1
   \<and> hook_sent (startPeriodicGathering ''/repo'' (mount initialState)) = []"
  by (simp add: step_def boot_def new_gatherer_def rt0_def script_defs sent_def Let_def
      mount_def periodic_effect_def initialState_def hook_op_defs hook_sent_def
      date_in_range_def TIMEOUT_MAX_def CONTEXT_GATHER_INTERVAL_def)

text \<open>
  C2, amended. Take the script with no timer armed, a period that the host arms as it
  is (1 to 2^31 - 1 milliseconds) and a next run whose date can be rendered. Then
  \<open>start\<close> returns without an exception, having printed its banner, run the tick body once
  and only then armed the repeating timer with that period: when no request is in flight
  the tick body sends exactly one request; when one is still in flight it reports the
  overlap and sends nothing. In the hook, start with no timer armed and a target reports
  the start and arms the timer with the fixed period, and sends nothing.
\<close>

theorem start_from_idle:
  assumes "intervalId (self s) = None"
    and "date_in_range (now (rt s) + intervalMs (self s))"
    and "1 \<le> intervalMs (self s)" and "intervalMs (self s) \<le> TIMEOUT_MAX"
    and "intervalRef h = None" and "q \<noteq> []"
  shows "fst (start s) = None
    \<and> added (rt s) (rt (snd (start s))) =
      [Console StdOut Starting, Console StdOut (CodebaseIs (codebasePath (self s))),
       Console StdOut (IntervalIs (intervalMinutes (self s))), Console StdOut ApiUrl,
       Console StdOut NextRun, Console StdOut PressCtrlC]
      @ (if isRunning (self s) then [Console StdOut AlreadyInProgress]
         else [Console StdOut (StartingFor (codebasePath (self s))),
               Post (codebasePath (self s))])
      @ [SetInterval (nextId (rt s)) (intervalMs (self s))]
    \<and> intervalId (self (snd (start s))) = Some (nextId (rt s))
    \<and> timers (rt (snd (start s))) = timers (rt s) @ [(nextId (rt s), intervalMs (self s))]
    \<and> isRunning (self (snd (start s)))
    \<and> pending (rt (snd (start s)))
        = (if isRunning (self s) then pending (rt s) else Suc (pending (rt s)))
    \<and> exited (snd (start s)) = exited s
    \<and> added (browser h) (browser (startPeriodicGathering q h)) =
        [Console StdOut HookStartEvery, SetInterval (nextId (browser h)) CONTEXT_GATHER_INTERVAL]
    \<and> intervalRef (startPeriodicGathering q h) = Some (nextId (browser h))
    \<and> timers (browser (startPeriodicGathering q h))
        = timers (browser h) @ [(nextId (browser h), CONTEXT_GATHER_INTERVAL)]
    \<and> pending (browser (startPeriodicGathering q h)) = pending (browser h)
    \<and> isRunningRef (startPeriodicGathering q h) = isRunningRef h"
  using assms
  by (simp add: script_defs hook_op_defs added_def Let_def TIMEOUT_MAX_def
      CONTEXT_GATHER_INTERVAL_def)

theorem start_from_idle_witness:
  "intervalId (self (boot ''/repo'' (Some 1))) = None
   \<and> date_in_range (now (rt (boot ''/repo'' (Some 1))) + intervalMs (self (boot ''/repo'' (Some 1))))
   \<and> 1 \<le> intervalMs (self (boot ''/repo'' (Some 1)))
   \<and> intervalMs (self (boot ''/repo'' (Some 1))) \<le> TIMEOUT_MAX
   \<and> intervalRef (mount initialState) = None
   \<and> sent (snd (start (boot ''/repo'' (Some 1)))) = [''/repo'']
   \<and> timers (rt (snd (start (boot ''/repo'' (Some 1))))) = [(1, 60000)]
   \<and> timers (browser (startPeriodicGathering ''/repo'' (mount initialState))) = [(1, 180000)]"
proof -
  have a: "intervalId (self (boot ''/repo'' (Some 1))) = None"
    by (simp add: boot_def new_gatherer_def)
  have b: "date_in_range (now (rt (boot ''/repo'' (Some 1)))
      + intervalMs (self (boot ''/repo'' (Some 1))))"
    by (simp add: boot_def new_gatherer_def rt0_def date_in_range_def)
  have c: "1 \<le> intervalMs (self (boot ''/repo'' (Some 1)))"
    by (simp add: boot_def new_gatherer_def)
  have d: "intervalMs (self (boot ''/repo'' (Some 1))) \<le> TIMEOUT_MAX"
    by (simp add: boot_def new_gatherer_def TIMEOUT_MAX_def)
  have e: "intervalRef (mount initialState) = None"
    by (simp add: mount_def periodic_effect_def initialState_def hook_op_defs)
  have f: "''/repo'' \<noteq> []" by simp
  have g: "sent (snd (start (boot ''/repo'' (Some 1)))) = [''/repo'']"
    by (simp add: boot_def new_gatherer_def rt0_def script_defs sent_def date_in_range_def
        Let_def split: prod.splits)
  have h: "timers (browser (mount initialState)) = [] \<and> nextId (browser (mount initialState)) = 1"
    by (simp add: mount_def periodic_effect_def initialState_def rt0_def hook_op_defs)
  show ?thesis
    using a b c d e g h start_from_idle[OF a b c d e f]
    by (simp add: boot_def new_gatherer_def rt0_def CONTEXT_GATHER_INTERVAL_def)
qed

section \<open>What a tick changes\<close>

text \<open>
  C9, as stated, fails for the hook: a tick that ends with status code 200 writes
  \<open>isContextGathered\<close> in the application state. Here the state is reset (and the timer
  stopped) while a periodic request is in flight; its success sets the flag again. And
  in a mounted hook with a target, the render that follows this dispatch clears the
  armed timer and arms a new one, which a failed tick does not.
\<close>

theorem outcome_feedback_counterexample:
  "isContextGathered (state
      (hook_run [HookStart ''/repo'', HookFire 1 ''/repo'', Dispatch RESET_STATE, HookStop]
         (mount (initialState\<lparr>appCodebasePath := ''/repo'', isContextGathered := True\<rparr>))))
     = False
   \<and> isContextGathered (state
      (hook_step (HookSettle (Fulfilled 200 (JObj [(''statuscode'', JNum 200)])))
        (hook_run [HookStart ''/repo'', HookFire 1 ''/repo'', Dispatch RESET_STATE, HookStop]
           (mount (initialState\<lparr>appCodebasePath := ''/repo'', isContextGathered := True\<rparr>)))))
     = True
   \<and> intervalRef (hook_run [HookFire 1 ''/repo'']
         (mount (initialState\<lparr>appCodebasePath := ''/repo'', isContextGathered := True\<rparr>)))
     = Some 1
   \<and> intervalRef (hook_step (HookSettle (Fulfilled 200 (JObj [(''statuscode'', JNum 200)])))
        (hook_run [HookFire 1 ''/repo'']
           (mount (initialState\<lparr>appCodebasePath := ''/repo'', isContextGathered := True\<rparr>))))
     = Some 2
   \<and> intervalRef (hook_step (HookSettle (Rejected (ErrRequest ''Network Error'')))
        (hook_run [HookFire 1 ''/repo'']
           (mount (initialState\<lparr>appCodebasePath := ''/repo'', isContextGathered := True\<rparr>))))
     = Some 1"
  by (simp add: hook_step_def mount_def periodic_effect_def rerender_def flush_def rt0_def
      initialState_def hook_op_defs hook_defs Let_def TIMEOUT_MAX_def
      CONTEXT_GATHER_INTERVAL_def)

text \<open>
  C9, amended. In the script a tick changes the flag and nothing else of the scheduler:
  its first half sets the flag and leaves the timers alone; its second half, whenever it
  returns without an exception, clears the flag, takes the settled request off the
  pending ones, leaves the timers, the handle counter, the clock and the process alone,
  and adds console lines only. In the hook, with no render queued, the second half after
  a rejected request, or after a response without status code 200, does the same to the
  refs and the browser and leaves the application state alone. After a response with
  status code 200 it clears the flag as well, and sets \<open>isContextGathered\<close> in the
  application state, and only that.
\<close>

theorem outcome_only_reported:
  "self (gatherContext_begin s) = (self s)\<lparr>isRunning := True\<rparr>
   \<and> timers (rt (gatherContext_begin s)) = timers (rt s)
   \<and> (fst (gatherContext_resume r s) = None \<longrightarrow> exited s = None \<longrightarrow> pending (rt s) \<noteq> 0 \<longrightarrow>
        self (step (Settle r) s) = (self s)\<lparr>isRunning := False\<rparr>
        \<and> timers (rt (step (Settle r) s)) = timers (rt s)
        \<and> nextId (rt (step (Settle r) s)) = nextId (rt s)
        \<and> now (rt (step (Settle r) s)) = now (rt s)
        \<and> pending (rt (step (Settle r) s)) = pending (rt s) - 1
        \<and> exited (step (Settle r) s) = None
        \<and> trace (rt (step (Settle r) s)) = trace (rt s) @ added (rt s) (rt (step (Settle r) s))
        \<and> list_all is_console (added (rt s) (rt (step (Settle r) s))))
   \<and> (pending (browser h) \<noteq> 0 \<longrightarrow> \<not> updateQueued h \<longrightarrow>
        isRunningRef (hook_step (HookSettle r) h) = False
        \<and> pending (browser (hook_step (HookSettle r) h)) = pending (browser h) - 1
        \<and> state (hook_step (HookSettle (Rejected e)) h) = state h
        \<and> intervalRef (hook_step (HookSettle (Rejected e)) h) = intervalRef h
        \<and> timers (browser (hook_step (HookSettle (Rejected e)) h)) = timers (browser h)
        \<and> nextId (browser (hook_step (HookSettle (Rejected e)) h)) = nextId (browser h)
        \<and> list_all is_console
             (added (browser h) (browser (hook_step (HookSettle (Rejected e)) h)))
        \<and> state (hook_step (HookSettle (Fulfilled c b)) h)
            = (if get_prop b ''statuscode'' = Inr (JNum 200)
               then (state h)\<lparr>isContextGathered := True\<rparr> else state h)
        \<and> (get_prop b ''statuscode'' \<noteq> Inr (JNum 200) \<longrightarrow>
             intervalRef (hook_step (HookSettle (Fulfilled c b)) h) = intervalRef h
             \<and> timers (browser (hook_step (HookSettle (Fulfilled c b)) h)) = timers (browser h)
             \<and> nextId (browser (hook_step (HookSettle (Fulfilled c b)) h)) = nextId (browser h)
             \<and> list_all is_console
                  (added (browser h) (browser (hook_step (HookSettle (Fulfilled c b)) h)))))"
proof -
  have a: "self (gatherContext_begin s) = (self s)\<lparr>isRunning := True\<rparr>
      \<and> timers (rt (gatherContext_begin s)) = timers (rt s)"
    by (simp add: script_defs Let_def)
  have b: "fst (gatherContext_resume r s) = None \<longrightarrow> exited s = None \<longrightarrow> pending (rt s) \<noteq> 0 \<longrightarrow>
        self (step (Settle r) s) = (self s)\<lparr>isRunning := False\<rparr>
        \<and> timers (rt (step (Settle r) s)) = timers (rt s)
        \<and> nextId (rt (step (Settle r) s)) = nextId (rt s)
        \<and> now (rt (step (Settle r) s)) = now (rt s)
        \<and> pending (rt (step (Settle r) s)) = pending (rt s) - 1
        \<and> exited (step (Settle r) s) = None
        \<and> trace (rt (step (Settle r) s)) = trace (rt s) @ added (rt s) (rt (step (Settle r) s))
        \<and> list_all is_console (added (rt s) (rt (step (Settle r) s)))"
  proof (intro impI)
    assume h: "fst (gatherContext_resume r s) = None" "exited s = None" "pending (rt s) \<noteq> 0"
    note f = settle_step_facts[OF h(2) h(3) h(1)]
    have "trace (rt (step (Settle r) s)) = trace (rt s) @ added (rt s) (rt (step (Settle r) s))"
      using resume_trace(1)[of r s]
      by (simp only: f(1)) (simp add: settle_step[OF h(2) h(3) h(1)])
    then show "self (step (Settle r) s) = (self s)\<lparr>isRunning := False\<rparr>
        \<and> timers (rt (step (Settle r) s)) = timers (rt s)
        \<and> nextId (rt (step (Settle r) s)) = nextId (rt s)
        \<and> now (rt (step (Settle r) s)) = now (rt s)
        \<and> pending (rt (step (Settle r) s)) = pending (rt s) - 1
        \<and> exited (step (Settle r) s) = None
        \<and> trace (rt (step (Settle r) s)) = trace (rt s) @ added (rt s) (rt (step (Settle r) s))
        \<and> list_all is_console (added (rt s) (rt (step (Settle r) s)))"
      using f resume_trace(3)[of s r] by simp
  qed
  have c: "pending (browser h) \<noteq> 0 \<longrightarrow> \<not> updateQueued h \<longrightarrow>
        isRunningRef (hook_step (HookSettle r) h) = False
        \<and> pending (browser (hook_step (HookSettle r) h)) = pending (browser h) - 1
        \<and> state (hook_step (HookSettle (Rejected e)) h) = state h
        \<and> intervalRef (hook_step (HookSettle (Rejected e)) h) = intervalRef h
        \<and> timers (browser (hook_step (HookSettle (Rejected e)) h)) = timers (browser h)
        \<and> nextId (browser (hook_step (HookSettle (Rejected e)) h)) = nextId (browser h)
        \<and> list_all is_console
             (added (browser h) (browser (hook_step (HookSettle (Rejected e)) h)))
        \<and> state (hook_step (HookSettle (Fulfilled c b)) h)
            = (if get_prop b ''statuscode'' = Inr (JNum 200)
               then (state h)\<lparr>isContextGathered := True\<rparr> else state h)
        \<and> (get_prop b ''statuscode'' \<noteq> Inr (JNum 200) \<longrightarrow>
             intervalRef (hook_step (HookSettle (Fulfilled c b)) h) = intervalRef h
             \<and> timers (browser (hook_step (HookSettle (Fulfilled c b)) h)) = timers (browser h)
             \<and> nextId (browser (hook_step (HookSettle (Fulfilled c b)) h)) = nextId (browser h)
             \<and> list_all is_console
                  (added (browser h) (browser (hook_step (HookSettle (Fulfilled c b)) h))))"
  proof (intro impI)
    assume h: "pending (browser h) \<noteq> 0" "\<not> updateQueued h"
    note g = hook_settle_facts[OF h(1)]
    have q1: "\<not> updateQueued (snd (hook_gatherContext_resume (Rejected e) h))"
      using h(2) by (simp add: hook_report_rejected)
    note r1 = hook_settle_quiet_facts[OF h(1) h(2) q1]
    have r2: "get_prop b ''statuscode'' \<noteq> Inr (JNum 200) \<longrightarrow>
             intervalRef (hook_step (HookSettle (Fulfilled c b)) h) = intervalRef h
             \<and> timers (browser (hook_step (HookSettle (Fulfilled c b)) h)) = timers (browser h)
             \<and> nextId (browser (hook_step (HookSettle (Fulfilled c b)) h)) = nextId (browser h)
             \<and> list_all is_console
                  (added (browser h) (browser (hook_step (HookSettle (Fulfilled c b)) h)))"
    proof
      assume n: "get_prop b ''statuscode'' \<noteq> Inr (JNum 200)"
      have q2: "\<not> updateQueued (snd (hook_gatherContext_resume (Fulfilled c b) h))"
        using h(2) n by (simp add: hook_report_fulfilled)
      note r = hook_settle_quiet_facts[OF h(1) h(2) q2]
      show "intervalRef (hook_step (HookSettle (Fulfilled c b)) h) = intervalRef h
             \<and> timers (browser (hook_step (HookSettle (Fulfilled c b)) h)) = timers (browser h)
             \<and> nextId (browser (hook_step (HookSettle (Fulfilled c b)) h)) = nextId (browser h)
             \<and> list_all is_console
                  (added (browser h) (browser (hook_step (HookSettle (Fulfilled c b)) h)))"
        using r hook_resume_trace(3)[of h "Fulfilled c b"] by simp
    qed
    show "isRunningRef (hook_step (HookSettle r) h) = False
        \<and> pending (browser (hook_step (HookSettle r) h)) = pending (browser h) - 1
        \<and> state (hook_step (HookSettle (Rejected e)) h) = state h
        \<and> intervalRef (hook_step (HookSettle (Rejected e)) h) = intervalRef h
        \<and> timers (browser (hook_step (HookSettle (Rejected e)) h)) = timers (browser h)
        \<and> nextId (browser (hook_step (HookSettle (Rejected e)) h)) = nextId (browser h)
        \<and> list_all is_console
             (added (browser h) (browser (hook_step (HookSettle (Rejected e)) h)))
        \<and> state (hook_step (HookSettle (Fulfilled c b)) h)
            = (if get_prop b ''statuscode'' = Inr (JNum 200)
               then (state h)\<lparr>isContextGathered := True\<rparr> else state h)
        \<and> (get_prop b ''statuscode'' \<noteq> Inr (JNum 200) \<longrightarrow>
             intervalRef (hook_step (HookSettle (Fulfilled c b)) h) = intervalRef h
             \<and> timers (browser (hook_step (HookSettle (Fulfilled c b)) h)) = timers (browser h)
             \<and> nextId (browser (hook_step (HookSettle (Fulfilled c b)) h)) = nextId (browser h)
             \<and> list_all is_console
                  (added (browser h) (browser (hook_step (HookSettle (Fulfilled c b)) h))))"
      using g(1)[of r] g(3)[of r] g(2)[of "Rejected e"] g(2)[of "Fulfilled c b"] r1 r2
        hook_resume_trace(3)[of h "Rejected e"]
      by (simp add: hook_report_rejected hook_report_fulfilled)
  qed
  show ?thesis using a b c by blast
qed

theorem outcome_only_reported_witness:
  "fst (gatherContext_resume (Rejected (ErrRequest ''Network Error''))
        (snd (start (boot ''/repo'' (Some 1))))) = None
   \<and> exited (snd (start (boot ''/repo'' (Some 1)))) = None
   \<and> pending (rt (snd (start (boot ''/repo'' (Some 1))))) \<noteq> 0
   \<and> pending (browser (hook_gatherContext_begin ''/repo'' (mount initialState))) \<noteq> 0
   \<and> \<not> updateQueued (hook_gatherContext_begin ''/repo'' (mount initialState))
   \<and> get_prop (JObj [(''statuscode'', JNum 500)]) ''statuscode'' \<noteq> Inr (JNum 200)
   \<and> timers (rt (step (Settle (Rejected (ErrRequest ''Network Error'')))
        (snd (start (boot ''/repo'' (Some 1)))))) = [(1, 60000)]
   \<and> timers (browser (hook_step (HookSettle (Fulfilled 200 (JObj [(''statuscode'', JNum 500)])))
        (hook_gatherContext_begin ''/repo'' (mount initialState)))) = []"
proof -
  have b: "fst (gatherContext_resume (Rejected (ErrRequest ''Network Error''))
        (snd (start (boot ''/repo'' (Some 1))))) = None"
    by (simp add: resume_throws)
  have c: "exited (snd (start (boot ''/repo'' (Some 1)))) = None
      \<and> pending (rt (snd (start (boot ''/repo'' (Some 1))))) \<noteq> 0
      \<and> timers (rt (snd (start (boot ''/repo'' (Some 1))))) = [(1, 60000)]"
    by (simp add: boot_def new_gatherer_def rt0_def script_defs date_in_range_def
        TIMEOUT_MAX_def Let_def split: prod.splits)
  have d: "pending (browser (hook_gatherContext_begin ''/repo'' (mount initialState))) \<noteq> 0
      \<and> \<not> updateQueued (hook_gatherContext_begin ''/repo'' (mount initialState))
      \<and> timers (browser (hook_gatherContext_begin ''/repo'' (mount initialState))) = []"
    by (simp add: mount_def periodic_effect_def initialState_def rt0_def hook_op_defs Let_def)
  have e: "get_prop (JObj [(''statuscode'', JNum 500)]) ''statuscode'' \<noteq> Inr (JNum 200)"
    by simp
  show ?thesis
    using b c d e
      outcome_only_reported[where s = "snd (start (boot ''/repo'' (Some 1)))"
        and r = "Rejected (ErrRequest ''Network Error'')"
        and h = "hook_gatherContext_begin ''/repo'' (mount initialState)"
        and b = "JObj [(''statuscode'', JNum 500)]" and c = 200]
    by simp
qed

lemma fires_idle: "timers (rt s) = [] \<Longrightarrow> run (map Fire ts) s = s"
  by (induction ts) (simp_all add: step_def)

lemma stop_effect:
  assumes "flag_inv s"
  shows "intervalId (self (stop s)) = None" and "timers (rt (stop s)) = []"
    and "isRunning (self (stop s)) = isRunning (self s)"
    and "pending (rt (stop s)) = pending (rt s)"
    and "sent (stop s) = sent s" and "exited (stop s) = exited s"
  using assms
  by (simp_all add: flag_inv_def sent_def script_defs posts_append split: option.splits)

lemma hook_stop_effect:
  assumes "hook_inv s"
  shows "intervalRef (stopPeriodicGathering s) = None"
    and "timers (browser (stopPeriodicGathering s)) = []"
    and "isRunningRef (stopPeriodicGathering s) = isRunningRef s"
    and "pending (browser (stopPeriodicGathering s)) = pending (browser s)"
    and "hook_sent (stopPeriodicGathering s) = hook_sent s"
    and "\<not> updateQueued (stopPeriodicGathering s)"
  using assms
  by (simp_all add: hook_inv_def refs_inv_def hook_sent_def hook_op_defs posts_append Let_def
      split: option.splits)

lemma exited_step: "exited s \<noteq> None \<Longrightarrow> step e s = s"
  by (simp add: step_def)

lemma signal_exits: "exited s = None \<Longrightarrow> exited (step Signal s) = Some 0"
  by (simp add: step_def script_defs split: option.splits)

section \<open>Stopping while a request is in flight\<close>

text \<open>
  C5, as stated, fails on the script's own way to \<open>stop\<close>: \<open>handleExit\<close> calls \<open>stop\<close> and then
  \<open>process.exit\<close>, so the request in flight is cut off with the process and its outcome
  is never reported.
\<close>

theorem stop_at_exit_counterexample:
  "isRunning (self (run [CallStart] (boot ''/repo'' (Some 1))))
   \<and> in_flight (run [CallStart] (boot ''/repo'' (Some 1))) = 1
   \<and> intervalId (self (step Signal (run [CallStart] (boot ''/repo'' (Some 1))))) = None
   \<and> exited (step Signal (run [CallStart] (boot ''/repo'' (Some 1)))) = Some 0
   \<and> added (rt (step Signal (run [CallStart] (boot ''/repo'' (Some 1)))))
        (rt (step (Settle (Rejected (ErrRequest ''Network Error'')))
           (step Signal (run [CallStart] (boot ''/repo'' (Some 1)))))) = []
   \<and> isRunning (self (step (Settle (Rejected (ErrRequest ''Network Error'')))
        (step Signal (run [CallStart] (boot ''/repo'' (Some 1))))))"
  by (simp add: step_def boot_def new_gatherer_def rt0_def script_defs in_flight_def added_def
      date_in_range_def TIMEOUT_MAX_def Let_def)

text \<open>
  C5, amended. Let \<open>s\<close> be a state of the running script with a request in flight, and \<open>h\<close>
  such a state of the hook. A call of \<open>stop\<close> clears the timer, so that no tick follows
  (timer events change nothing any more), and leaves the request alone: it is still in
  flight, the flag is still set and nothing new has been sent. While the process goes
  on, the request then settles as it would have without the stop: the script reports a
  network error, another error by its message, an error response by its status and its
  error text (when that can be rendered), and a response as a success or a warning;
  whenever that tick returns without an exception the flag is released and still no
  timer is armed. The hook reports a rejected request by the error it caught and a
  response by its completion line, and releases the flag; after a rejected request or a
  response without status code 200 still no timer is armed. On the script's own path to
  \<open>stop\<close>, the signal handler, the process ends with status 0 right after \<open>stop\<close>, and
  nothing happens any more.
\<close>

theorem stop_spares_in_flight:
  assumes "s = run es (boot p m)" and "exited s = None" and "isRunning (self s)"
    and "s' = step CallStop s"
    and "h = hook_run hes (mount st)" and "isRunningRef h" and "h' = hook_step HookStop h"
  shows "intervalId (self s') = None
    \<and> timers (rt s') = []
    \<and> run (map Fire ts) s' = s'
    \<and> isRunning (self s')
    \<and> in_flight s' = 1
    \<and> sent s' = sent s
    \<and> exited s' = None
    \<and> added (rt s') (rt (step (Settle (Rejected (ErrRequest msg))) s'))
        = [Console StdErr Failed, Console StdErr NetworkError]
    \<and> added (rt s') (rt (step (Settle (Rejected (ErrOther msg))) s'))
        = [Console StdErr Failed, Console StdErr (ErrMessage msg)]
    \<and> (stringifies (error_detail d tx) \<longrightarrow>
         added (rt s') (rt (step (Settle (Rejected (ErrResponse c d tx msg))) s'))
           = [Console StdErr Failed, Console StdErr (ErrStatus c),
              Console StdErr (ErrDetail (error_detail d tx))])
    \<and> added (rt s') (rt (step (Settle (Fulfilled c b)) s'))
        = (if truthy b \<and> get_prop b ''statuscode'' = Inr (JNum 200) then
             Console StdOut CompletedOk #
               (if stringifies (optional_prop b ''detail'') then
                  Console StdOut (StatusIs (optional_prop b ''detail'')) #
                    (if stringifies (optional_prop b ''time_taken_seconds'') then
                       [Console StdOut (TimeTaken (optional_prop b ''time_taken_seconds''))]
                     else [Console StdErr Failed,
                           Console StdErr (ErrMessage (message TypeError))])
                else [Console StdErr Failed, Console StdErr (ErrMessage (message TypeError))])
           else [Console StdOut CompletedWarn, Console StdOut (ResponseIs b)])
    \<and> (fst (gatherContext_resume r s') = None \<longrightarrow>
         isRunning (self (step (Settle r) s')) = False
         \<and> in_flight (step (Settle r) s') = 0
         \<and> timers (rt (step (Settle r) s')) = []
         \<and> exited (step (Settle r) s') = None)
    \<and> exited (step Signal s) = Some 0
    \<and> step e (step Signal s) = step Signal s
    \<and> intervalRef h' = None
    \<and> timers (browser h') = []
    \<and> hook_step (HookFire t q) h' = h'
    \<and> isRunningRef h'
    \<and> hook_in_flight h' = 1
    \<and> hook_sent h' = hook_sent h
    \<and> isRunningRef (hook_step (HookSettle r) h') = False
    \<and> hook_in_flight (hook_step (HookSettle r) h') = 0
    \<and> added (browser h') (browser (hook_step (HookSettle (Rejected x)) h'))
        = [Console StdErr (ApiError (api_error_value x)), Console StdErr (ServiceError x),
           Console StdErr (HookFailed (AxiosError x))]
    \<and> timers (browser (hook_step (HookSettle (Rejected x)) h')) = []
    \<and> take 2 (added (browser h') (browser (hook_step (HookSettle (Fulfilled c b)) h')))
        = Console StdOut (ResponseReceived c) #
          (case get_prop b ''statuscode'' of
             Inl y \<Rightarrow> [Console StdErr (HookFailed y)]
           | Inr sc \<Rightarrow> [Console StdOut (HookCompleted sc (optional_prop b ''time_taken_seconds'')
                                         (optional_prop b ''detail''))])
    \<and> (get_prop b ''statuscode'' \<noteq> Inr (JNum 200) \<longrightarrow>
         timers (browser (hook_step (HookSettle (Fulfilled c b)) h')) = [])"
proof -
  have i: "flag_inv s" unfolding assms(1) by (rule flag_inv_run[OF flag_inv_boot])
  have j: "hook_inv h" unfolding assms(5) by (rule hook_inv_run[OF hook_inv_mount])
  have p1: "pending (rt s) = 1" using i assms(3) by (simp add: flag_inv_def)
  have q1: "pending (browser h) = 1"
    using j assms(6) by (simp add: hook_inv_def refs_inv_def)
  have st: "s' = stop s" using assms(2) assms(4) by (simp add: step_def)
  have hs: "h' = stopPeriodicGathering h" using assms(7) by (simp add: hook_step_def)
  note se = stop_effect[OF i, folded st]
  note he = hook_stop_effect[OF j, folded hs]
  have ex: "exited s' = None" using se(6) assms(2) by simp
  have pn: "pending (rt s') \<noteq> 0" using se(4) p1 by simp
  have qn: "pending (browser h') \<noteq> 0" using he(4) q1 by simp
  have base: "intervalId (self s') = None \<and> timers (rt s') = []
      \<and> run (map Fire ts) s' = s' \<and> isRunning (self s') \<and> in_flight s' = 1
      \<and> sent s' = sent s \<and> exited s' = None"
    using se ex p1 assms(3) fires_idle[OF se(2), of ts] by (simp add: in_flight_def)
  have r1: "added (rt s') (rt (step (Settle (Rejected (ErrRequest msg))) s'))
        = [Console StdErr Failed, Console StdErr NetworkError]"
    using settle_step_facts(1)[OF ex pn script_report_request(1)]
    by (simp add: script_report_request)
  have r2: "added (rt s') (rt (step (Settle (Rejected (ErrOther msg))) s'))
        = [Console StdErr Failed, Console StdErr (ErrMessage msg)]"
    using settle_step_facts(1)[OF ex pn script_report_other(1)]
    by (simp add: script_report_other)
  have r3: "stringifies (error_detail d tx) \<longrightarrow>
         added (rt s') (rt (step (Settle (Rejected (ErrResponse c d tx msg))) s'))
           = [Console StdErr Failed, Console StdErr (ErrStatus c),
              Console StdErr (ErrDetail (error_detail d tx))]"
  proof
    assume a: "stringifies (error_detail d tx)"
    show "added (rt s') (rt (step (Settle (Rejected (ErrResponse c d tx msg))) s'))
           = [Console StdErr Failed, Console StdErr (ErrStatus c),
              Console StdErr (ErrDetail (error_detail d tx))]"
      using settle_step_facts(1)[OF ex pn script_report_response(1)[OF a]]
      by (simp add: script_report_response(2)[OF a])
  qed
  have r4: "added (rt s') (rt (step (Settle (Fulfilled c b)) s'))
        = added (rt s') (rt (snd (gatherContext_resume (Fulfilled c b) s')))"
    using settle_step_facts(1)[OF ex pn script_report_fulfilled(1)] .
  have r5: "fst (gatherContext_resume r s') = None \<longrightarrow>
         isRunning (self (step (Settle r) s')) = False
         \<and> in_flight (step (Settle r) s') = 0
         \<and> timers (rt (step (Settle r) s')) = []
         \<and> exited (step (Settle r) s') = None"
  proof
    assume a: "fst (gatherContext_resume r s') = None"
    show "isRunning (self (step (Settle r) s')) = False
         \<and> in_flight (step (Settle r) s') = 0
         \<and> timers (rt (step (Settle r) s')) = []
         \<and> exited (step (Settle r) s') = None"
      using settle_step_facts[OF ex pn a] se p1 by (simp add: in_flight_def)
  qed
  have r6: "exited (step Signal s) = Some 0 \<and> step e (step Signal s) = step Signal s"
    using signal_exits[OF assms(2)] exited_step[of "step Signal s" e] by simp
  have fire: "hook_step (HookFire t q) h' = h'"
    using he(2) by (simp add: hook_step_def)
  note g = hook_settle_facts[OF qn]
  have u1: "\<not> updateQueued (snd (hook_gatherContext_resume (Rejected x) h'))"
    using he(6) by (simp add: hook_report_rejected)
  note k1 = hook_settle_quiet_facts[OF qn he(6) u1]
  have h1: "added (browser h') (browser (hook_step (HookSettle (Rejected x)) h'))
        = [Console StdErr (ApiError (api_error_value x)), Console StdErr (ServiceError x),
           Console StdErr (HookFailed (AxiosError x))]
      \<and> timers (browser (hook_step (HookSettle (Rejected x)) h')) = []"
    using k1 he(2) by (simp add: hook_report_rejected)
  obtain zs where z: "added (browser h') (browser (hook_step (HookSettle (Fulfilled c b)) h'))
           = added (browser h') (browser (snd (hook_gatherContext_resume (Fulfilled c b) h'))) @ zs"
    using g(4)[of "Fulfilled c b"] by blast
  have h2: "take 2 (added (browser h') (browser (hook_step (HookSettle (Fulfilled c b)) h')))
        = Console StdOut (ResponseReceived c) #
          (case get_prop b ''statuscode'' of
             Inl y \<Rightarrow> [Console StdErr (HookFailed y)]
           | Inr sc \<Rightarrow> [Console StdOut (HookCompleted sc (optional_prop b ''time_taken_seconds'')
                                         (optional_prop b ''detail''))])"
    by (simp add: z hook_report_fulfilled split: sum.splits)
  have h3: "get_prop b ''statuscode'' \<noteq> Inr (JNum 200) \<longrightarrow>
         timers (browser (hook_step (HookSettle (Fulfilled c b)) h')) = []"
  proof
    assume n: "get_prop b ''statuscode'' \<noteq> Inr (JNum 200)"
    have u2: "\<not> updateQueued (snd (hook_gatherContext_resume (Fulfilled c b) h'))"
      using he(6) n by (simp add: hook_report_fulfilled)
    show "timers (browser (hook_step (HookSettle (Fulfilled c b)) h')) = []"
      using hook_settle_quiet_facts(3)[OF qn he(6) u2] he(2) by simp
  qed
  have hook: "intervalRef h' = None \<and> timers (browser h') = []
      \<and> hook_step (HookFire t q) h' = h' \<and> isRunningRef h' \<and> hook_in_flight h' = 1
      \<and> hook_sent h' = hook_sent h
      \<and> isRunningRef (hook_step (HookSettle r) h') = False
      \<and> hook_in_flight (hook_step (HookSettle r) h') = 0"
    using he q1 assms(6) fire g(1)[of r] g(3)[of r] by (simp add: hook_in_flight_def)
  show ?thesis
    using base r1 r2 r3 r5 r6 hook h1 h2 h3
    by (simp only: r4 script_report_fulfilled)
qed

theorem stop_spares_in_flight_witness:
  "exited (run [CallStart] (boot ''/repo'' (Some 1))) = None
   \<and> isRunning (self (run [CallStart] (boot ''/repo'' (Some 1))))
   \<and> isRunningRef (hook_run [HookStart ''/repo'', HookFire 1 ''/repo''] (mount initialState))
   \<and> stringifies (error_detail (JObj [(''error'', JStr ''boom'')]) ''Internal Server Error'')
   \<and> fst (gatherContext_resume (Rejected (ErrRequest ''Network Error''))
        (step CallStop (run [CallStart] (boot ''/repo'' (Some 1))))) = None
   \<and> get_prop (JObj [(''statuscode'', JNum 500)]) ''statuscode'' \<noteq> Inr (JNum 200)
   \<and> timers (rt (step CallStop (run [CallStart] (boot ''/repo'' (Some 1))))) = []
   \<and> added (rt (step CallStop (run [CallStart] (boot ''/repo'' (Some 1)))))
        (rt (step (Settle (Rejected (ErrResponse 500 (JObj [(''error'', JStr ''boom'')])
               ''Internal Server Error'' ''Request failed with status code 500'')))
           (step CallStop (run [CallStart] (boot ''/repo'' (Some 1))))))
       = [Console StdErr Failed, Console StdErr (ErrStatus 500),
          Console StdErr (ErrDetail (JStr ''boom''))]
   \<and> in_flight (step (Settle (Rejected (ErrRequest ''Network Error'')))
        (step CallStop (run [CallStart] (boot ''/repo'' (Some 1))))) = 0
   \<and> timers (browser (hook_step (HookSettle (Fulfilled 200 (JObj [(''statuscode'', JNum 500)])))
        (hook_step HookStop
           (hook_run [HookStart ''/repo'', HookFire 1 ''/repo''] (mount initialState))))) = []"
proof -
  have a: "exited (run [CallStart] (boot ''/repo'' (Some 1))) = None"
    by (simp add: step_def boot_def new_gatherer_def rt0_def script_defs date_in_range_def
        Let_def)
  have b: "isRunning (self (run [CallStart] (boot ''/repo'' (Some 1))))"
    by (simp add: step_def boot_def new_gatherer_def rt0_def script_defs date_in_range_def
        Let_def)
  have c: "isRunningRef (hook_run [HookStart ''/repo'', HookFire 1 ''/repo''] (mount initialState))"
    by (simp add: hook_step_def mount_def periodic_effect_def initialState_def rt0_def
        hook_op_defs Let_def TIMEOUT_MAX_def CONTEXT_GATHER_INTERVAL_def)
  have d: "stringifies (error_detail (JObj [(''error'', JStr ''boom'')]) ''Internal Server Error'')"
    and d': "error_detail (JObj [(''error'', JStr ''boom'')]) ''Internal Server Error''
      = JStr ''boom''"
    by (simp_all add: error_detail_def optional_prop_def)
  have e: "fst (gatherContext_resume (Rejected (ErrRequest ''Network Error''))
        (step CallStop (run [CallStart] (boot ''/repo'' (Some 1))))) = None"
    by (simp add: resume_throws)
  have f: "get_prop (JObj [(''statuscode'', JNum 500)]) ''statuscode'' \<noteq> Inr (JNum 200)"
    by simp
  show ?thesis
    using a b c d d' e f
      stop_spares_in_flight[OF refl a b refl refl c refl,
        where r = "Rejected (ErrRequest ''Network Error'')"
        and d = "JObj [(''error'', JStr ''boom'')]" and tx = "''Internal Server Error''"
        and c = 500 and msg = "''Request failed with status code 500''"]
      stop_spares_in_flight[OF refl a b refl refl c refl,
        where b = "JObj [(''statuscode'', JNum 500)]" and c = 200]
    by simp
qed

end
